theory Spec2Isabelle
  imports Main
begin

section \<open>Data model (types/index.ts and the SQL schema)\<close>

text \<open>
  The five relations of the schema are modelled as lists of rows in insertion order; the
  \<^verbatim>\<open>ORDER BY\<close> clauses of the queries are not modelled.
  UUIDs (row ids and signing tokens) are opaque, so they are natural numbers drawn from a
  counter kept in the database state. Timestamps are natural numbers; each operation that
  reads the clock (\<^verbatim>\<open>new Date()\<close>, \<^verbatim>\<open>CURRENT_TIMESTAMP\<close>) takes the current time
  as its first argument. A nullable column is an \<open>option\<close>.

  The table \<^verbatim>\<open>document_files\<close>, which no code reads or writes, is left out, and so are
  the columns that no modelled operation reads: the page geometry of a field,
  \<^verbatim>\<open>updated_at\<close>, the \<^verbatim>\<open>created_at\<close> of the child tables, and of the field metadata
  everything but the \<^verbatim>\<open>required\<close> flag. Every SQL statement is modelled by its effect on
  the tables, including the \<^verbatim>\<open>ON DELETE\<close> actions the schema declares. Connection
  failures are not part of the model. Where a handler passes data of the request to a
  statement, the checks of the columns are modelled and the statement can be refused
  (\<open>createSignature\<close>, \<open>tryUpdateFieldValue\<close>, \<open>tryCreateAuditLog\<close>); elsewhere a
  statement is taken to succeed.
\<close>

type_synonym uuid = nat
type_synonym timestamp = nat

datatype DocumentStatus = Draft | Pending | Completed | Cancelled

datatype RecipientRole = RSigner | RViewer | RCc

datatype SigningStatus = SigPending | SigSigned | SigRejected

datatype FieldType =
    FSignature | FFreeSignature | FInitial
  | FName | FEmail | FDate
  | FText | FNumber
  | FCheckbox | FRadio | FDropdown

datatype AuditEventType =
    document_created | document_distributed | document_viewed | field_signed
  | signing_completed | document_completed | document_cancelled

datatype MetaVal =
    MStr string | MNum nat | MBool bool | MTime timestamp | MUuid uuid | MType FieldType

record SignaturePackage =
  p_id :: uuid
  p_title :: string
  p_status :: DocumentStatus
  p_owner_wallet_address :: string
  p_payment_tx_hash :: "string option"
  p_document_data :: "string option"
  p_document_html :: "string option"
  p_created_at :: timestamp
  p_completed_at :: "timestamp option"

record RecipientInput =
  ri_walletAddress :: "string option"
  ri_email :: "string option"
  ri_name :: string
  ri_role :: "RecipientRole option"
  ri_signingOrder :: "int option"

record Recipient =
  r_id :: uuid
  r_package_id :: uuid
  r_wallet_address :: "string option"
  r_email :: "string option"
  r_name :: string
  r_role :: RecipientRole
  r_signing_order :: "int option"
  r_signing_status :: SigningStatus
  r_signed_at :: "timestamp option"
  r_ip_address :: "string option"
  r_user_agent :: "string option"
  r_token :: uuid

record FieldMeta =
  m_required :: "bool option"

record SignatureField =
  f_id :: uuid
  f_package_id :: uuid
  f_recipient_id :: uuid
  f_field_type :: FieldType
  f_page :: nat
  f_value :: "string option"
  f_field_meta :: "FieldMeta option"
  f_inserted :: bool

record Signature =
  s_id :: uuid
  s_field_id :: uuid
  s_recipient_id :: uuid
  s_signature_image :: "string option"
  s_typed_signature :: "string option"
  s_kyc_verified_name :: "string option"
  s_kyc_nft_address :: "string option"
  s_wallet_signature :: "string option"
  s_wallet_address :: "string option"
  s_document_hash :: "string option"
  s_signed_at :: timestamp

record AuditLog =
  a_id :: uuid
  a_package_id :: "uuid option"
  a_event_type :: AuditEventType
  a_user_wallet :: "string option"
  a_user_email :: "string option"
  a_ip_address :: "string option"
  a_user_agent :: "string option"
  a_data :: "(string \<times> MetaVal) list"
  a_created_at :: timestamp

record Db =
  packages :: "SignaturePackage list"
  recipients :: "Recipient list"
  signature_fields :: "SignatureField list"
  signatures :: "Signature list"
  audit_logs :: "AuditLog list"
  next_uuid :: uuid

definition empty_db :: Db where
  "empty_db = \<lparr>packages = [], recipients = [], signature_fields = [], signatures = [],
     audit_logs = [], next_uuid = 0\<rparr>"

text \<open>JavaScript truthiness of an optional string: \<^verbatim>\<open>undefined\<close>, \<^verbatim>\<open>null\<close> and the
  empty string are falsy. \<open>orNull\<close> is the idiom \<^verbatim>\<open>x || null\<close>.\<close>

definition truthy :: "string option \<Rightarrow> bool" where
  "truthy x = (case x of None \<Rightarrow> False | Some s \<Rightarrow> s \<noteq> [])"

definition orNull :: "string option \<Rightarrow> string option" where
  "orNull x = (if truthy x then x else None)"

definition orElse :: "string option \<Rightarrow> string option \<Rightarrow> string option" where
  "orElse x y = (if truthy x then x else y)"

section \<open>Persistence layer (db/schema.ts)\<close>

definition createPackage ::
  "timestamp \<Rightarrow> string \<Rightarrow> string \<Rightarrow> string option \<Rightarrow> string option \<Rightarrow> string option \<Rightarrow> Db
     \<Rightarrow> SignaturePackage \<times> Db" where
  "createPackage now title ownerWalletAddress paymentTxHash documentData documentHtml db =
     (let row = \<lparr>p_id = next_uuid db, p_title = title, p_status = Draft,
                 p_owner_wallet_address = ownerWalletAddress,
                 p_payment_tx_hash = paymentTxHash,
                 p_document_data = documentData, p_document_html = documentHtml,
                 p_created_at = now, p_completed_at = None\<rparr>
      in (row, db\<lparr>packages := packages db @ [row], next_uuid := Suc (next_uuid db)\<rparr>))"

definition getPackageById :: "uuid \<Rightarrow> Db \<Rightarrow> SignaturePackage option" where
  "getPackageById i db = find (\<lambda>p. p_id p = i) (packages db)"

definition updatePackageStatus ::
  "timestamp \<Rightarrow> uuid \<Rightarrow> DocumentStatus \<Rightarrow> Db \<Rightarrow> SignaturePackage option \<times> Db" where
  "updatePackageStatus now i status db =
     (let completedAt = (if status = Completed then Some now else None);
          db' = db\<lparr>packages :=
                  map (\<lambda>p. if p_id p = i
                            then p\<lparr>p_status := status, p_completed_at := completedAt\<rparr>
                            else p) (packages db)\<rparr>
      in (getPackageById i db', db'))"

definition updatePackageDocument ::
  "uuid \<Rightarrow> string \<Rightarrow> Db \<Rightarrow> SignaturePackage option \<times> Db" where
  "updatePackageDocument i documentData db =
     (let db' = db\<lparr>packages :=
                  map (\<lambda>p. if p_id p = i then p\<lparr>p_document_data := Some documentData\<rparr> else p)
                      (packages db)\<rparr>
      in (getPackageById i db', db'))"

definition createRecipient :: "uuid \<Rightarrow> RecipientInput \<Rightarrow> Db \<Rightarrow> Recipient \<times> Db" where
  "createRecipient packageId input db =
     (let token = next_uuid db;
          row = \<lparr>r_id = Suc (next_uuid db), r_package_id = packageId,
                 r_wallet_address = orNull (ri_walletAddress input),
                 r_email = orNull (ri_email input),
                 r_name = ri_name input,
                 r_role = (case ri_role input of None \<Rightarrow> RSigner | Some ro \<Rightarrow> ro),
                 r_signing_order =
                   (case ri_signingOrder input of None \<Rightarrow> None
                    | Some n \<Rightarrow> if n = 0 then None else Some n),
                 r_signing_status = SigPending, r_signed_at = None,
                 r_ip_address = None, r_user_agent = None, r_token = token\<rparr>
      in (row, db\<lparr>recipients := recipients db @ [row],
                   next_uuid := Suc (Suc (next_uuid db))\<rparr>))"

definition getRecipientByToken :: "uuid \<Rightarrow> Db \<Rightarrow> Recipient option" where
  "getRecipientByToken token db = find (\<lambda>r. r_token r = token) (recipients db)"

definition updateRecipientStatus ::
  "timestamp \<Rightarrow> uuid \<Rightarrow> SigningStatus \<Rightarrow> string option \<Rightarrow> string option \<Rightarrow> Db \<Rightarrow> Db" where
  "updateRecipientStatus now i status ipAddress userAgent db =
     (let signedAt = (if status = SigSigned then Some now else None)
      in db\<lparr>recipients :=
              map (\<lambda>r. if r_id r = i
                        then r\<lparr>r_signing_status := status, r_signed_at := signedAt,
                               r_ip_address := ipAddress, r_user_agent := userAgent\<rparr>
                        else r) (recipients db)\<rparr>)"

definition createField ::
  "uuid \<Rightarrow> uuid \<Rightarrow> FieldType \<Rightarrow> nat \<Rightarrow> FieldMeta option \<Rightarrow> Db \<Rightarrow> SignatureField \<times> Db" where
  "createField packageId recipientId fieldType page fieldMeta db =
     (let row = \<lparr>f_id = next_uuid db, f_package_id = packageId, f_recipient_id = recipientId,
                 f_field_type = fieldType, f_page = page, f_value = None,
                 f_field_meta = fieldMeta, f_inserted = False\<rparr>
      in (row, db\<lparr>signature_fields := signature_fields db @ [row],
                   next_uuid := Suc (next_uuid db)\<rparr>))"

definition getFieldById :: "uuid \<Rightarrow> Db \<Rightarrow> SignatureField option" where
  "getFieldById i db = find (\<lambda>f. f_id f = i) (signature_fields db)"

definition getFieldsByPackage :: "uuid \<Rightarrow> Db \<Rightarrow> SignatureField list" where
  "getFieldsByPackage packageId db =
     filter (\<lambda>f. f_package_id f = packageId) (signature_fields db)"

definition getFieldsByRecipient :: "uuid \<Rightarrow> Db \<Rightarrow> SignatureField list" where
  "getFieldsByRecipient recipientId db =
     filter (\<lambda>f. f_recipient_id f = recipientId) (signature_fields db)"

definition getRecipientsByPackage :: "uuid \<Rightarrow> Db \<Rightarrow> Recipient list" where
  "getRecipientsByPackage packageId db =
     filter (\<lambda>r. r_package_id r = packageId) (recipients db)"

definition updateFieldValue :: "uuid \<Rightarrow> string option \<Rightarrow> Db \<Rightarrow> Db" where
  "updateFieldValue i v db =
     db\<lparr>signature_fields :=
          map (\<lambda>f. if f_id f = i then f\<lparr>f_value := v, f_inserted := True\<rparr> else f)
              (signature_fields db)\<rparr>"

definition clearFieldValue :: "uuid \<Rightarrow> Db \<Rightarrow> Db" where
  "clearFieldValue i db =
     db\<lparr>signature_fields :=
          map (\<lambda>f. if f_id f = i then f\<lparr>f_value := None, f_inserted := False\<rparr> else f)
              (signature_fields db)\<rparr>"

record SignatureData =
  signatureImage :: "string option"
  typedSignature :: "string option"
  kycVerifiedName :: "string option"
  kycNftAddress :: "string option"
  walletSignature :: "string option"
  walletAddress :: "string option"
  documentHash :: "string option"

definition noSignatureData :: SignatureData where
  "noSignatureData = \<lparr>signatureImage = None, typedSignature = None, kycVerifiedName = None,
     kycNftAddress = None, walletSignature = None, walletAddress = None,
     documentHash = None\<rparr>"

text \<open>
  What PostgreSQL does with a text parameter: a string that holds the character NUL is
  refused; a string longer than a \<^verbatim>\<open>VARCHAR(n)\<close> column is refused unless the excess is
  all spaces, in which case it is cut to \<open>n\<close> characters. \<open>None\<close> stands for the refused
  statement, which \<^verbatim>\<open>pool.query\<close> throws. The bounds of \<^verbatim>\<open>signatures\<close> are those of the
  schema and of migration 002: \<^verbatim>\<open>typed_signature\<close> and \<^verbatim>\<open>kyc_verified_name\<close> 255,
  \<^verbatim>\<open>kyc_nft_address\<close> and \<^verbatim>\<open>wallet_address\<close> 66, \<^verbatim>\<open>document_hash\<close> 64;
  \<^verbatim>\<open>signature_image\<close> and \<^verbatim>\<open>wallet_signature\<close> are \<^verbatim>\<open>TEXT\<close>.
\<close>

definition storeText :: "string option \<Rightarrow> string option option" where
  "storeText x =
     (case x of
        None \<Rightarrow> Some None
      | Some s \<Rightarrow> if CHR 0x00 \<in> set s then None else Some (Some s))"

definition storeVarchar :: "nat \<Rightarrow> string option \<Rightarrow> string option option" where
  "storeVarchar n x =
     (case x of
        None \<Rightarrow> Some None
      | Some s \<Rightarrow>
          if CHR 0x00 \<in> set s then None
          else if length s \<le> n then Some (Some s)
          else if list_all (\<lambda>c. c = CHR '' '') (drop n s) then Some (Some (take n s))
          else None)"

definition createSignature ::
  "timestamp \<Rightarrow> uuid \<Rightarrow> uuid \<Rightarrow> SignatureData \<Rightarrow> Db \<Rightarrow> (Signature \<times> Db) option" where
  "createSignature now fieldId recipientId d db =
     Option.bind (storeText (orNull (signatureImage d))) (\<lambda>c1.
     Option.bind (storeVarchar 255 (orNull (typedSignature d))) (\<lambda>c2.
     Option.bind (storeVarchar 255 (orNull (kycVerifiedName d))) (\<lambda>c3.
     Option.bind (storeVarchar 66 (orNull (kycNftAddress d))) (\<lambda>c4.
     Option.bind (storeText (orNull (walletSignature d))) (\<lambda>c5.
     Option.bind (storeVarchar 66 (orNull (walletAddress d))) (\<lambda>c6.
     Option.bind (storeVarchar 64 (orNull (documentHash d))) (\<lambda>c7.
       (let row = \<lparr>s_id = next_uuid db, s_field_id = fieldId, s_recipient_id = recipientId,
                   s_signature_image = c1,
                   s_typed_signature = c2,
                   s_kyc_verified_name = c3,
                   s_kyc_nft_address = c4,
                   s_wallet_signature = c5,
                   s_wallet_address = c6,
                   s_document_hash = c7,
                   s_signed_at = now\<rparr>
        in Some (row, db\<lparr>signatures := signatures db @ [row],
                         next_uuid := Suc (next_uuid db)\<rparr>)))))))))"

definition getSignatureByField :: "uuid \<Rightarrow> Db \<Rightarrow> Signature option" where
  "getSignatureByField fieldId db = find (\<lambda>s. s_field_id s = fieldId) (signatures db)"

definition deleteSignatureByField :: "uuid \<Rightarrow> Db \<Rightarrow> Db" where
  "deleteSignatureByField fieldId db =
     db\<lparr>signatures := filter (\<lambda>s. s_field_id s \<noteq> fieldId) (signatures db)\<rparr>"

definition getSignaturesByPackage :: "uuid \<Rightarrow> Db \<Rightarrow> Signature list" where
  "getSignaturesByPackage packageId db =
     filter (\<lambda>s. \<exists>f \<in> set (signature_fields db). s_field_id s = f_id f \<and> f_package_id f = packageId)
            (signatures db)"

record AuditData =
  userWallet :: "string option"
  userEmail :: "string option"
  ipAddress :: "string option"
  userAgent :: "string option"
  metadata :: "(string \<times> MetaVal) list option"

definition noAuditData :: AuditData where
  "noAuditData = \<lparr>userWallet = None, userEmail = None, ipAddress = None, userAgent = None,
     metadata = None\<rparr>"

definition createAuditLog ::
  "timestamp \<Rightarrow> uuid option \<Rightarrow> AuditEventType \<Rightarrow> AuditData \<Rightarrow> Db \<Rightarrow> AuditLog \<times> Db" where
  "createAuditLog now packageId eventType d db =
     (let row = \<lparr>a_id = next_uuid db, a_package_id = packageId, a_event_type = eventType,
                 a_user_wallet = orNull (userWallet d),
                 a_user_email = orNull (userEmail d),
                 a_ip_address = orNull (ipAddress d),
                 a_user_agent = orNull (userAgent d),
                 a_data = (case metadata d of None \<Rightarrow> [] | Some m \<Rightarrow> m),
                 a_created_at = now\<rparr>
      in (row, db\<lparr>audit_logs := audit_logs db @ [row], next_uuid := Suc (next_uuid db)\<rparr>))"

definition getAuditLogsByPackage :: "uuid \<Rightarrow> Db \<Rightarrow> AuditLog list" where
  "getAuditLogsByPackage packageId db =
     filter (\<lambda>a. a_package_id a = Some packageId) (audit_logs db)"

text \<open>
  \<open>updateFieldValue\<close> and \<open>createAuditLog\<close> above give the effect of the statement when
  the database accepts it. The sign handler passes request data to both, so there the
  statements run with the checks of their columns: \<^verbatim>\<open>signature_fields.value\<close> and
  \<^verbatim>\<open>audit_logs.user_agent\<close> are \<^verbatim>\<open>TEXT\<close>, \<^verbatim>\<open>user_wallet\<close> is \<^verbatim>\<open>VARCHAR(66)\<close>,
  \<^verbatim>\<open>user_email\<close> \<^verbatim>\<open>VARCHAR(255)\<close> and \<^verbatim>\<open>ip_address\<close> \<^verbatim>\<open>VARCHAR(45)\<close>.
\<close>

definition tryUpdateFieldValue :: "uuid \<Rightarrow> string option \<Rightarrow> Db \<Rightarrow> Db option" where
  "tryUpdateFieldValue i v db =
     Option.bind (storeText v) (\<lambda>c. Some (updateFieldValue i c db))"

definition tryCreateAuditLog ::
  "timestamp \<Rightarrow> uuid option \<Rightarrow> AuditEventType \<Rightarrow> AuditData \<Rightarrow> Db \<Rightarrow> (AuditLog \<times> Db) option"
  where
  "tryCreateAuditLog now packageId eventType d db =
     Option.bind (storeVarchar 66 (orNull (userWallet d))) (\<lambda>c1.
     Option.bind (storeVarchar 255 (orNull (userEmail d))) (\<lambda>c2.
     Option.bind (storeVarchar 45 (orNull (ipAddress d))) (\<lambda>c3.
     Option.bind (storeText (orNull (userAgent d))) (\<lambda>c4.
       Some (createAuditLog now packageId eventType
               (d\<lparr>userWallet := c1, userEmail := c2, ipAddress := c3, userAgent := c4\<rparr>)
               db)))))"

definition checkAllRecipientsSigned :: "uuid \<Rightarrow> Db \<Rightarrow> bool" where
  "checkAllRecipientsSigned packageId db =
     (let rows = filter (\<lambda>r. r_package_id r = packageId \<and> r_role r = RSigner) (recipients db);
          total = length rows;
          signed = length (filter (\<lambda>r. r_signing_status r = SigSigned) rows)
      in total > 0 \<and> total = signed)"


text \<open>
  The deletion statements. The schema declares \<^verbatim>\<open>ON DELETE CASCADE\<close> from
  \<^verbatim>\<open>signature_fields\<close> and \<^verbatim>\<open>recipients\<close> to \<^verbatim>\<open>signatures\<close>, from \<^verbatim>\<open>recipients\<close>
  to \<^verbatim>\<open>signature_fields\<close>, from \<^verbatim>\<open>signature_packages\<close> to \<^verbatim>\<open>recipients\<close> and
  \<^verbatim>\<open>signature_fields\<close>, and \<^verbatim>\<open>ON DELETE SET NULL\<close> from \<^verbatim>\<open>signature_packages\<close> to
  \<^verbatim>\<open>audit_logs\<close>. \<open>dropFields\<close> and \<open>dropRecipients\<close> delete the rows that satisfy a
  predicate together with the rows the schema cascades to.
\<close>

definition dropFields :: "(SignatureField \<Rightarrow> bool) \<Rightarrow> Db \<Rightarrow> Db" where
  "dropFields P db =
     (let gone = map f_id (filter P (signature_fields db))
      in db\<lparr>signature_fields := filter (\<lambda>f. \<not> P f) (signature_fields db),
            signatures := filter (\<lambda>s. s_field_id s \<notin> set gone) (signatures db)\<rparr>)"

definition dropRecipients :: "(Recipient \<Rightarrow> bool) \<Rightarrow> Db \<Rightarrow> Db" where
  "dropRecipients P db =
     (let gone = map r_id (filter P (recipients db));
          db1 = db\<lparr>recipients := filter (\<lambda>r. \<not> P r) (recipients db)\<rparr>;
          db2 = dropFields (\<lambda>f. f_recipient_id f \<in> set gone) db1
      in db2\<lparr>signatures := filter (\<lambda>s. s_recipient_id s \<notin> set gone) (signatures db2)\<rparr>)"

definition deletePackage :: "uuid \<Rightarrow> Db \<Rightarrow> Db" where
  "deletePackage packageId db =
     (let gone = map p_id (filter (\<lambda>p. p_id p = packageId) (packages db));
          db1 = db\<lparr>packages := filter (\<lambda>p. p_id p \<noteq> packageId) (packages db)\<rparr>;
          db2 = dropRecipients (\<lambda>r. r_package_id r \<in> set gone) db1;
          db3 = dropFields (\<lambda>f. f_package_id f \<in> set gone) db2
      in db3\<lparr>audit_logs :=
               map (\<lambda>a. case a_package_id a of
                           None \<Rightarrow> a
                         | Some q \<Rightarrow> if q \<in> set gone then a\<lparr>a_package_id := None\<rparr> else a)
                   (audit_logs db3)\<rparr>)"

definition deleteRecipientsByPackage :: "uuid \<Rightarrow> Db \<Rightarrow> Db" where
  "deleteRecipientsByPackage packageId db =
     dropRecipients (\<lambda>r. r_package_id r = packageId) db"

definition deleteFieldsByPackage :: "uuid \<Rightarrow> Db \<Rightarrow> Db" where
  "deleteFieldsByPackage packageId db =
     dropFields (\<lambda>f. f_package_id f = packageId) db"

definition deleteSignaturesByPackage :: "uuid \<Rightarrow> Db \<Rightarrow> Db" where
  "deleteSignaturesByPackage packageId db =
     db\<lparr>signatures :=
          filter (\<lambda>s. s_field_id s \<notin> set (map f_id (getFieldsByPackage packageId db)))
                 (signatures db)\<rparr>"

definition deleteAuditLogsByPackage :: "uuid \<Rightarrow> Db \<Rightarrow> Db" where
  "deleteAuditLogsByPackage packageId db =
     db\<lparr>audit_logs := filter (\<lambda>a. a_package_id a \<noteq> Some packageId) (audit_logs db)\<rparr>"

section \<open>Document service (services/document.ts)\<close>

text \<open>
  \<^verbatim>\<open>renderFieldsOnPdf\<close> and \<^verbatim>\<open>appendConfirmationPage\<close> come from the certificate module,
  which draws on the PDF. They are parameters of the model: each reads the database and
  the PDF bytes and either returns new bytes or throws (\<open>None\<close>). The base64 coding of
  \<^verbatim>\<open>document_data\<close> is left implicit, so PDF bytes and the stored column are both
  strings. Loading the certificate module is taken to succeed.
\<close>

record Certificate =
  renderFieldsOnPdf :: "Db \<Rightarrow> string \<Rightarrow> uuid \<Rightarrow> string option"
  appendConfirmationPage :: "Db \<Rightarrow> string \<Rightarrow> uuid \<Rightarrow> string \<Rightarrow> string option"

definition distributeDocument :: "timestamp \<Rightarrow> uuid \<Rightarrow> Db \<Rightarrow> SignaturePackage option \<times> Db" where
  "distributeDocument now documentId db =
     (let (pkg, db1) = updatePackageStatus now documentId Pending db
      in case pkg of
           None \<Rightarrow> (None, db1)
         | Some p \<Rightarrow>
             (Some p,
              snd (createAuditLog now (Some documentId) document_distributed
                     (noAuditData\<lparr>userWallet := Some (p_owner_wallet_address p),
                                  metadata := Some [(''distributedAt'', MTime now)]\<rparr>) db1)))"

definition cancelDocument :: "timestamp \<Rightarrow> uuid \<Rightarrow> Db \<Rightarrow> SignaturePackage option \<times> Db" where
  "cancelDocument now documentId db =
     (let (pkg, db1) = updatePackageStatus now documentId Cancelled db
      in case pkg of
           None \<Rightarrow> (None, db1)
         | Some p \<Rightarrow>
             (Some p,
              snd (createAuditLog now (Some documentId) document_cancelled
                     (noAuditData\<lparr>userWallet := Some (p_owner_wallet_address p),
                                  metadata := Some [(''cancelledAt'', MTime now)]\<rparr>) db1)))"

text \<open>\<^verbatim>\<open>generateFinalDocument\<close>: returns early when there is no document data; the
  rendering, the confirmation page and the write-back sit inside one \<^verbatim>\<open>try\<close> whose
  \<^verbatim>\<open>catch\<close> logs the error and returns normally.\<close>

definition generateFinalDocument :: "Certificate \<Rightarrow> uuid \<Rightarrow> Db \<Rightarrow> Db" where
  "generateFinalDocument cert documentId db =
     (case getPackageById documentId db of
        None \<Rightarrow> db
      | Some doc \<Rightarrow>
          if \<not> truthy (p_document_data doc) then db
          else
            (case renderFieldsOnPdf cert db (the (p_document_data doc)) documentId of
               None \<Rightarrow> db
             | Some renderedPdfBytes \<Rightarrow>
                 (case appendConfirmationPage cert db renderedPdfBytes documentId (p_title doc) of
                    None \<Rightarrow> db
                  | Some finalPdfBytes \<Rightarrow>
                      snd (updatePackageDocument documentId finalPdfBytes db))))"

definition checkAndCompleteDocument ::
  "Certificate \<Rightarrow> timestamp \<Rightarrow> uuid \<Rightarrow> Db \<Rightarrow> bool \<times> Db" where
  "checkAndCompleteDocument cert now documentId db =
     (let allSigned = checkAllRecipientsSigned documentId db
      in if allSigned then
           (let db1 = generateFinalDocument cert documentId db;
                db2 = snd (updatePackageStatus now documentId Completed db1);
                db3 = snd (createAuditLog now (Some documentId) document_completed
                             (noAuditData\<lparr>metadata := Some [(''completedAt'', MTime now)]\<rparr>) db2)
            in (True, db3))
         else (False, db))"

definition deleteDocument :: "uuid \<Rightarrow> Db \<Rightarrow> Db" where
  "deleteDocument documentId db =
     (let doc = getPackageById documentId db;
          db1 = deleteSignaturesByPackage documentId db;
          db2 = deleteFieldsByPackage documentId db1;
          db3 = deleteRecipientsByPackage documentId db2;
          db4 = deleteAuditLogsByPackage documentId db3
      in deletePackage documentId db4)"


section \<open>Identity oracle (services/kyc-lookup.ts)\<close>

text \<open>
  The chain client is a parameter: \<open>getOwnedDigitalAssets chain w\<close> is the list of tokens
  the wallet \<open>w\<close> owns, or \<open>None\<close> when the query throws. \<^verbatim>\<open>toLowerCase\<close> is modelled
  on the ASCII letters.
\<close>

record TokenProperties =
  kyc_status :: "string option"
  full_name :: "string option"
  country :: "string option"
  verification_date :: "nat option"

record TokenData =
  collection_id :: "string option"
  token_properties :: "TokenProperties option"

record OwnedToken =
  token_data_id :: "string option"
  current_token_data :: "TokenData option"

record KYCVerifiedIdentity =
  k_nftAddress :: string
  k_fullName :: string
  k_country :: "string option"
  k_verificationDate :: nat

record Chain =
  kycCollectionAddress :: string
  getOwnedDigitalAssets :: "string \<Rightarrow> OwnedToken list option"

definition toLowerChar :: "char \<Rightarrow> char" where
  "toLowerChar c =
     (let n = (of_char c :: nat) in if 65 \<le> n \<and> n \<le> 90 then char_of (n + 32) else c)"

definition toLowerCase :: "string \<Rightarrow> string" where
  "toLowerCase s = map toLowerChar s"

fun kycFromToken :: "timestamp \<Rightarrow> OwnedToken \<Rightarrow> KYCVerifiedIdentity option" where
  "kycFromToken now token =
     (case current_token_data token of
        None \<Rightarrow> None
      | Some tokenData \<Rightarrow>
          (case token_properties tokenData of
             None \<Rightarrow> None
           | Some properties \<Rightarrow>
               if kyc_status properties \<noteq> Some ''approved'' then None
               else if \<not> truthy (full_name properties) then None
               else Some \<lparr>k_nftAddress = (case token_data_id token of None \<Rightarrow> [] | Some a \<Rightarrow> a),
                          k_fullName = the (full_name properties),
                          k_country = country properties,
                          k_verificationDate =
                            (case verification_date properties of
                               None \<Rightarrow> now
                             | Some t \<Rightarrow> if t = 0 then now else t)\<rparr>))"

definition getKYCVerifiedNames :: "Chain \<Rightarrow> timestamp \<Rightarrow> string \<Rightarrow> KYCVerifiedIdentity list" where
  "getKYCVerifiedNames chain now wallet =
     (if kycCollectionAddress chain = [] then []
      else case getOwnedDigitalAssets chain wallet of
             None \<Rightarrow> []
           | Some ownedTokens \<Rightarrow> List.map_filter (kycFromToken now) ownedTokens)"

record KycVerification =
  verified :: bool
  v_nftAddress :: "string option"
  v_fullName :: "string option"
  v_error :: "string option"

definition kycFailed :: "string \<Rightarrow> KycVerification" where
  "kycFailed msg = \<lparr>verified = False, v_nftAddress = None, v_fullName = None, v_error = Some msg\<rparr>"

definition kycMatched :: "KYCVerifiedIdentity \<Rightarrow> KycVerification" where
  "kycMatched m = \<lparr>verified = True, v_nftAddress = Some (k_nftAddress m),
     v_fullName = Some (k_fullName m), v_error = None\<rparr>"

fun joinComma :: "string list \<Rightarrow> string" where
  "joinComma [] = []"
| "joinComma [x] = x"
| "joinComma (x # y # ys) = x @ '', '' @ joinComma (y # ys)"

definition verifyKYCName ::
  "Chain \<Rightarrow> timestamp \<Rightarrow> string \<Rightarrow> string \<Rightarrow> string option \<Rightarrow> KycVerification" where
  "verifyKYCName chain now wallet nm nftAddress =
     (let verifiedNames = getKYCVerifiedNames chain now wallet
      in if verifiedNames = [] then kycFailed ''No KYC NFTs found for this wallet''
         else if truthy nftAddress then
           (case find (\<lambda>v. k_nftAddress v = the nftAddress \<and>
                            toLowerCase (k_fullName v) = toLowerCase nm) verifiedNames of
              Some m \<Rightarrow> kycMatched m
            | None \<Rightarrow> kycFailed ''Name does not match the specified KYC NFT'')
         else
           (case find (\<lambda>v. toLowerCase (k_fullName v) = toLowerCase nm) verifiedNames of
              Some m \<Rightarrow> kycMatched m
            | None \<Rightarrow>
                kycFailed (''Name '' @ [CHR 0x22] @ nm @ [CHR 0x22] @
                           '' not found in wallet's KYC NFTs. Available names: '' @
                           joinComma (map k_fullName verifiedNames))))"


section \<open>Signing routes (routes/signing.ts)\<close>

text \<open>
  A request body is a \<^verbatim>\<open>SignFieldRequest\<close>. Its \<^verbatim>\<open>value\<close> arrives as JSON, so besides a
  string it may be a number; the integers that JavaScript represents exactly (at most
  \<open>2^53 - 1\<close> in magnitude) are modelled, \<open>jsSafeValue\<close>. \<open>jsString\<close> is
  \<^verbatim>\<open>String(v)\<close>, which is also the text the database driver sends for the parameter.
  The request context carries what the handler reads from the connection: the result of
  \<^verbatim>\<open>getClientIp\<close> and the \<^verbatim>\<open>user-agent\<close> header.
\<close>

datatype JsValue = JStr string | JNum int

fun showNat :: "nat \<Rightarrow> string" where
  "showNat n = (if n < 10 then [char_of (48 + n)]
                else showNat (n div 10) @ [char_of (48 + n mod 10)])"

definition jsSafeValue :: "JsValue \<Rightarrow> bool" where
  "jsSafeValue v = (case v of JStr s \<Rightarrow> True | JNum n \<Rightarrow> \<bar>n\<bar> \<le> 9007199254740991)"

definition showInt :: "int \<Rightarrow> string" where
  "showInt i = (if i < 0 then CHR ''-'' # showNat (nat (- i)) else showNat (nat i))"

fun jsString :: "JsValue \<Rightarrow> string" where
  "jsString (JStr s) = s"
| "jsString (JNum n) = showInt n"

record SignFieldRequest =
  b_signatureImage :: "string option"
  b_typedSignature :: "string option"
  b_kycNftAddress :: "string option"
  b_verifiedName :: "string option"
  b_walletSignature :: "string option"
  b_walletAddress :: "string option"
  b_documentHash :: "string option"
  b_value :: "JsValue option"

definition emptyRequest :: SignFieldRequest where
  "emptyRequest = \<lparr>b_signatureImage = None, b_typedSignature = None, b_kycNftAddress = None,
     b_verifiedName = None, b_walletSignature = None, b_walletAddress = None,
     b_documentHash = None, b_value = None\<rparr>"

record ReqCtx =
  clientIp :: string
  userAgentHeader :: "string option"

datatype SignatureType = TWallet | TKyc | TTyped | TDrawn

record FieldWithSignature =
  fw_field :: SignatureField
  fw_signed :: bool
  fw_type :: "SignatureType option"
  fw_signature :: "Signature option"

record SigningSession =
  ss_document_id :: uuid
  ss_document_title :: string
  ss_document_status :: DocumentStatus
  ss_document_createdAt :: timestamp
  ss_recipient :: Recipient
  ss_fields :: "FieldWithSignature list"
  ss_totalFields :: nat
  ss_signedFields :: nat
  ss_allFieldsSigned :: bool
  ss_kycVerifiedNames :: "KYCVerifiedIdentity list"
  ss_hasKYC :: bool

datatype Response =
    ErrorJson nat string
  | KycErrorJson nat string "string option"
  | UnsignedFieldsJson nat string "(uuid \<times> FieldType) list"
  | SuccessJson uuid string
  | CompleteJson bool timestamp string
  | SessionJson SigningSession

definition isSignatureField :: "FieldType \<Rightarrow> bool" where
  "isSignatureField fieldType = (fieldType \<in> set [FSignature, FFreeSignature, FInitial])"

definition isRequiredField :: "SignatureField \<Rightarrow> bool" where
  "isRequiredField field =
     (if isSignatureField (f_field_type field) then True
      else case f_field_meta field of
             None \<Rightarrow> False
           | Some meta \<Rightarrow> m_required meta = Some True)"

definition signatureTypeOf :: "Signature \<Rightarrow> SignatureType option" where
  "signatureTypeOf signature =
     (if truthy (s_wallet_signature signature) then Some TWallet
      else if truthy (s_kyc_verified_name signature) then Some TKyc
      else if truthy (s_typed_signature signature) then Some TTyped
      else if truthy (s_signature_image signature) then Some TDrawn
      else None)"

definition fieldWithSignature :: "Db \<Rightarrow> SignatureField \<Rightarrow> FieldWithSignature" where
  "fieldWithSignature db field =
     (let signature = getSignatureByField (f_id field) db
      in \<lparr>fw_field = field, fw_signed = (signature \<noteq> None),
          fw_type = (case signature of None \<Rightarrow> None | Some sg \<Rightarrow> signatureTypeOf sg),
          fw_signature = signature\<rparr>)"

text \<open>\<^verbatim>\<open>GET /:token\<close>. The optional \<^verbatim>\<open>walletAddress\<close> query parameter is \<open>wallet\<close>.\<close>

definition getSigningSession ::
  "Chain \<Rightarrow> timestamp \<Rightarrow> ReqCtx \<Rightarrow> uuid \<Rightarrow> string option \<Rightarrow> Db \<Rightarrow> Response \<times> Db" where
  "getSigningSession chain now ctx token wallet db =
     (case getRecipientByToken token db of
        None \<Rightarrow> (ErrorJson 404 ''Invalid signing token'', db)
      | Some recipient \<Rightarrow>
          (case getPackageById (r_package_id recipient) db of
             None \<Rightarrow> (ErrorJson 404 ''Document not found'', db)
           | Some pkg \<Rightarrow>
               if p_status pkg = Cancelled
               then (ErrorJson 400 ''This document has been cancelled'', db)
               else if p_status pkg = Completed
               then (ErrorJson 400 ''This document has already been completed'', db)
               else
                 (let recipientFields =
                        filter (\<lambda>f. f_recipient_id f = r_id recipient)
                               (getFieldsByPackage (r_package_id recipient) db);
                      fieldsWithSignatures = map (fieldWithSignature db) recipientFields;
                      db1 = snd (createAuditLog now (Some (r_package_id recipient)) document_viewed
                                   (noAuditData\<lparr>userWallet := wallet,
                                                userEmail := orNull (r_email recipient),
                                                ipAddress := Some (clientIp ctx),
                                                userAgent := orNull (userAgentHeader ctx)\<rparr>) db);
                      kycVerifiedNames =
                        (if truthy wallet then getKYCVerifiedNames chain now (the wallet) else [])
                  in (SessionJson
                        \<lparr>ss_document_id = p_id pkg, ss_document_title = p_title pkg,
                         ss_document_status = p_status pkg,
                         ss_document_createdAt = p_created_at pkg,
                         ss_recipient = recipient,
                         ss_fields = fieldsWithSignatures,
                         ss_totalFields = length recipientFields,
                         ss_signedFields = length (filter fw_signed fieldsWithSignatures),
                         ss_allFieldsSigned =
                           list_all (\<lambda>f. fw_signed f \<or> \<not> isRequiredField (fw_field f))
                                    fieldsWithSignatures,
                         ss_kycVerifiedNames = kycVerifiedNames,
                         ss_hasKYC = (kycVerifiedNames \<noteq> [])\<rparr>, db1))))"

text \<open>
  \<^verbatim>\<open>POST /:token/field/:fieldId\<close>. The payload fields are strings, as
  \<^verbatim>\<open>SignFieldRequest\<close> declares them. The whole handler runs inside one \<^verbatim>\<open>try\<close> whose
  \<^verbatim>\<open>catch\<close> answers 500; there is no transaction, so a statement the database refuses
  leaves the earlier writes of the call in place. The two arms of the field-type branch are
  given as functions of their own; each returns either an early answer together with the
  database at that point (\<open>Inl\<close>) or the database after its writes (\<open>Inr\<close>), after which
  the handler appends the audit event and answers with success.
\<close>

definition failedToSign :: Response where
  "failedToSign = ErrorJson 500 ''Failed to sign field''"

text \<open>The wallet whose credentials are checked:
  \<^verbatim>\<open>recipient.wallet_address || body.walletAddress || ''\<close>.\<close>

definition kycWallet :: "Recipient \<Rightarrow> SignFieldRequest \<Rightarrow> string" where
  "kycWallet recipient body =
     (case orElse (r_wallet_address recipient) (b_walletAddress body) of
        None \<Rightarrow> [] | Some w \<Rightarrow> w)"

text \<open>The two awaited writes of a signature branch: \<^verbatim>\<open>createSignature\<close>, then
  \<^verbatim>\<open>updateFieldValue\<close> with the marker of the branch.\<close>

definition insertThenMark ::
  "timestamp \<Rightarrow> uuid \<Rightarrow> uuid \<Rightarrow> SignatureData \<Rightarrow> string option \<Rightarrow> Db
     \<Rightarrow> (Response \<times> Db) + Db" where
  "insertThenMark now fieldId recipientId signatureData marker db =
     (case createSignature now fieldId recipientId signatureData db of
        None \<Rightarrow> Inl (failedToSign, db)
      | Some (signature, db1) \<Rightarrow>
          (case tryUpdateFieldValue fieldId marker db1 of
             None \<Rightarrow> Inl (failedToSign, db1)
           | Some db2 \<Rightarrow> Inr db2))"

definition signSignatureField ::
  "Chain \<Rightarrow> timestamp \<Rightarrow> Recipient \<Rightarrow> uuid \<Rightarrow> SignFieldRequest \<Rightarrow> Db
     \<Rightarrow> (Response \<times> Db) + Db" where
  "signSignatureField chain now recipient fieldId body db =
     (if truthy (b_kycNftAddress body) \<and> truthy (b_verifiedName body) then
        (let verification =
               verifyKYCName chain now (kycWallet recipient body)
                 (the (b_verifiedName body)) (b_kycNftAddress body)
         in if \<not> verified verification
            then Inl (KycErrorJson 400 ''KYC verification failed'' (v_error verification), db)
            else
              (let signatureData =
                     noSignatureData\<lparr>kycVerifiedName := b_verifiedName body,
                                     kycNftAddress := b_kycNftAddress body,
                                     walletSignature := orNull (b_walletSignature body),
                                     walletAddress := orNull (b_walletAddress body),
                                     documentHash := orNull (b_documentHash body)\<rparr>
               in insertThenMark now fieldId (r_id recipient) signatureData
                    (Some (''[KYC: '' @ the (b_verifiedName body) @ '']'')) db))
      else if truthy (b_walletSignature body) \<and> truthy (b_walletAddress body)
                \<and> truthy (b_documentHash body) then
        (let w = the (b_walletAddress body);
             shortAddr = take 6 w @ ''...'' @ drop (length w - 4) w
         in insertThenMark now fieldId (r_id recipient)
              (noSignatureData\<lparr>walletSignature := b_walletSignature body,
                               walletAddress := b_walletAddress body,
                               documentHash := b_documentHash body\<rparr>)
              (Some (''[Wallet: '' @ shortAddr @ '']'')) db)
      else if truthy (b_typedSignature body) then
        insertThenMark now fieldId (r_id recipient)
          (noSignatureData\<lparr>typedSignature := b_typedSignature body\<rparr>)
          (b_typedSignature body) db
      else if truthy (b_signatureImage body) then
        insertThenMark now fieldId (r_id recipient)
          (noSignatureData\<lparr>signatureImage := b_signatureImage body\<rparr>)
          (Some ''[signature image]'') db
      else
        Inl (ErrorJson 400
          ''Signature field requires walletSignature, signatureImage, typedSignature, or kycNftAddress+verifiedName'',
          db))"

definition signValueField ::
  "timestamp \<Rightarrow> Recipient \<Rightarrow> uuid \<Rightarrow> SignFieldRequest \<Rightarrow> Db \<Rightarrow> (Response \<times> Db) + Db" where
  "signValueField now recipient fieldId body db =
     (case b_value body of
        None \<Rightarrow> Inl (ErrorJson 400 ''value is required for this field type'', db)
      | Some v \<Rightarrow>
          (case tryUpdateFieldValue fieldId (Some (jsString v)) db of
             None \<Rightarrow> Inl (failedToSign, db)
           | Some db1 \<Rightarrow>
               (case createSignature now fieldId (r_id recipient)
                       (noSignatureData\<lparr>typedSignature := Some (jsString v)\<rparr>) db1 of
                  None \<Rightarrow> Inl (failedToSign, db1)
                | Some (signature, db2) \<Rightarrow> Inr db2)))"

definition fieldSignedAudit ::
  "Recipient \<Rightarrow> ReqCtx \<Rightarrow> uuid \<Rightarrow> SignatureField \<Rightarrow> SignFieldRequest \<Rightarrow> AuditData" where
  "fieldSignedAudit recipient ctx fieldId field body =
     noAuditData\<lparr>userWallet := orNull (r_wallet_address recipient),
                  userEmail := orNull (r_email recipient),
                  ipAddress := Some (clientIp ctx),
                  userAgent := userAgentHeader ctx,
                  metadata := Some
                    [(''fieldId'', MUuid fieldId),
                     (''fieldType'', MType (f_field_type field)),
                     (''isKYC'', MBool (truthy (b_kycNftAddress body)
                          \<and> truthy (b_verifiedName body)))]\<rparr>"

definition signField ::
  "Chain \<Rightarrow> timestamp \<Rightarrow> ReqCtx \<Rightarrow> uuid \<Rightarrow> uuid \<Rightarrow> SignFieldRequest \<Rightarrow> Db \<Rightarrow> Response \<times> Db" where
  "signField chain now ctx token fieldId body db =
     (case getRecipientByToken token db of
        None \<Rightarrow> (ErrorJson 404 ''Invalid signing token'', db)
      | Some recipient \<Rightarrow>
          (case getFieldById fieldId db of
             None \<Rightarrow> (ErrorJson 404 ''Field not found'', db)
           | Some field \<Rightarrow>
               if f_recipient_id field \<noteq> r_id recipient
               then (ErrorJson 403 ''Field does not belong to this recipient'', db)
               else
                 (case getSignatureByField fieldId db of
                    Some existingSignature \<Rightarrow> (ErrorJson 400 ''Field has already been signed'', db)
                  | None \<Rightarrow>
                      (case (if isSignatureField (f_field_type field)
                             then signSignatureField chain now recipient fieldId body db
                             else signValueField now recipient fieldId body db) of
                         Inl answer \<Rightarrow> answer
                       | Inr db1 \<Rightarrow>
                           (case tryCreateAuditLog now (Some (r_package_id recipient)) field_signed
                                   (fieldSignedAudit recipient ctx fieldId field body) db1 of
                              None \<Rightarrow> (failedToSign, db1)
                            | Some (entry, db2) \<Rightarrow>
                                (SuccessJson fieldId ''Field signed successfully'', db2))))))"

text \<open>\<^verbatim>\<open>DELETE /:token/field/:fieldId\<close>. In this handler, in the completion handler
  and in the session handler the statements are taken to succeed.\<close>

definition unsignField :: "timestamp \<Rightarrow> uuid \<Rightarrow> uuid \<Rightarrow> Db \<Rightarrow> Response \<times> Db" where
  "unsignField now token fieldId db =
     (case getRecipientByToken token db of
        None \<Rightarrow> (ErrorJson 404 ''Invalid signing token'', db)
      | Some recipient \<Rightarrow>
          if r_signing_status recipient = SigSigned
          then (ErrorJson 400 ''Cannot unsign after completing the signing session'', db)
          else
            (case getFieldById fieldId db of
               None \<Rightarrow> (ErrorJson 404 ''Field not found'', db)
             | Some field \<Rightarrow>
                 if f_recipient_id field \<noteq> r_id recipient
                 then (ErrorJson 403 ''Field does not belong to this recipient'', db)
                 else
                   (let db1 = deleteSignatureByField fieldId db;
                        db2 = clearFieldValue fieldId db1;
                        db3 = snd (createAuditLog now (Some (r_package_id recipient)) field_signed
                                (noAuditData\<lparr>userWallet := orNull (r_wallet_address recipient),
                                             userEmail := orNull (r_email recipient),
                                             metadata := Some
                                               [(''fieldId'', MUuid fieldId),
                                                (''fieldType'', MType (f_field_type field)),
                                                (''action'', MStr ''unsigned'')]\<rparr>) db2)
                    in (SuccessJson fieldId ''Field unsigned successfully'', db3))))"

text \<open>\<^verbatim>\<open>POST /:token/complete\<close>.\<close>

definition completeSigning ::
  "Certificate \<Rightarrow> timestamp \<Rightarrow> ReqCtx \<Rightarrow> uuid \<Rightarrow> Db \<Rightarrow> Response \<times> Db" where
  "completeSigning cert now ctx token db =
     (case getRecipientByToken token db of
        None \<Rightarrow> (ErrorJson 404 ''Invalid signing token'', db)
      | Some recipient \<Rightarrow>
          (let fields = getFieldsByRecipient (r_id recipient) db;
               unsignedRequired =
                 filter (\<lambda>f. isRequiredField f \<and> getSignatureByField (f_id f) db = None) fields
           in if unsignedRequired \<noteq> []
              then (UnsignedFieldsJson 400 ''Not all required fields are signed''
                      (map (\<lambda>f. (f_id f, f_field_type f)) unsignedRequired), db)
              else
                (let userAgent' = (case orNull (userAgentHeader ctx) of None \<Rightarrow> [] | Some u \<Rightarrow> u);
                     db1 = updateRecipientStatus now (r_id recipient) SigSigned
                             (Some (clientIp ctx)) (Some userAgent') db;
                     db2 = snd (createAuditLog now (Some (r_package_id recipient)) signing_completed
                                  (noAuditData\<lparr>userWallet := orNull (r_wallet_address recipient),
                                               userEmail := orNull (r_email recipient),
                                               ipAddress := Some (clientIp ctx),
                                               userAgent := Some userAgent',
                                               metadata := Some
                                                 [(''recipientName'', MStr (r_name recipient)),
                                                  (''signedAt'', MTime now)]\<rparr>) db1);
                     (documentCompleted, db3) =
                        checkAndCompleteDocument cert now (r_package_id recipient) db2
                 in (CompleteJson documentCompleted now (clientIp ctx), db3))))"


section \<open>Payment gate (middleware/x402.ts)\<close>

text \<open>
  The configuration is a parameter. The facilitator is a parameter too: a call to its
  \<^verbatim>\<open>/verify\<close> endpoint either fails on the network (\<^verbatim>\<open>fetch\<close> or reading the body
  throws), or returns a body that is not JSON, or returns the JSON value \<^verbatim>\<open>null\<close>, or
  returns another JSON value, of which the middleware reads the properties
  \<^verbatim>\<open>isValid\<close> (by its truthiness), \<^verbatim>\<open>payer\<close> and \<^verbatim>\<open>invalidReason\<close>; a value without
  a property has it undefined. A call to \<^verbatim>\<open>/settle\<close> either throws (network failure or a
  body that is not JSON), or returns \<^verbatim>\<open>null\<close>, or returns another JSON value, read
  through \<^verbatim>\<open>success\<close>, \<^verbatim>\<open>transaction\<close>, \<^verbatim>\<open>payer\<close> and \<^verbatim>\<open>errorReason\<close>. Decoding the
  \<^verbatim>\<open>PAYMENT-SIGNATURE\<close> header (base64, then JSON) is the parameter \<open>decode\<close>, with \<open>None\<close>
  when the handler throws on it. The value of the \<^verbatim>\<open>PAYMENT-REQUIRED\<close> response header is
  the base64 coding of a JSON document; the model keeps the document.
  The middleware returns what it does to the request, together with the calls it made to
  the facilitator, in order.
\<close>

record X402Config =
  facilitatorUrl :: string
  paymentRecipientAddress :: string
  signaturePriceUsdc :: string
  priceAtomic :: string
  usdcAssetAddress :: string
  network :: string

record PaymentRequirements =
  pr_scheme :: string
  pr_network :: string
  pr_amount :: string
  pr_asset :: string
  pr_payTo :: string
  pr_maxTimeoutSeconds :: nat
  pr_extra_sponsored :: "bool option"

record Resource =
  res_url :: string
  res_description :: string
  res_mimeType :: string

record PaymentRequired =
  prq_x402Version :: nat
  prq_error :: string
  prq_resource :: Resource
  prq_accepts :: "PaymentRequirements list"

record PaymentPayload =
  pp_x402Version :: nat
  pp_resource :: Resource
  pp_accepted :: PaymentRequirements
  pp_transaction :: string
  pp_senderAuthenticator :: "string option"

record PaymentInfo =
  transactionHash :: "string option"
  payer :: "string option"
  amount :: string
  pi_network :: string

record VerifyResult =
  isValid :: bool
  vr_payer :: "string option"
  invalidReason :: "string option"

record SettleResult =
  success :: bool
  transaction :: "string option"
  sr_payer :: "string option"
  errorReason :: "string option"

datatype VerifyReply =
    VerifyUnreachable | VerifyNotJson string | VerifyJsonNull | VerifyJson VerifyResult

datatype SettleReply = SettleUnreachable | SettleJsonNull | SettleJson SettleResult

record Facilitator =
  fac_verify :: "PaymentPayload \<Rightarrow> PaymentRequirements \<Rightarrow> VerifyReply"
  fac_settle :: "PaymentPayload \<Rightarrow> PaymentRequirements \<Rightarrow> SettleReply"

datatype FacilitatorCall = CallVerify | CallSettle

datatype PaymentOutcome =
    Challenge nat PaymentRequired string nat
  | PaymentError nat string "string option"
  | ServerError nat string
  | Next PaymentInfo

definition buildPaymentRequirements :: "X402Config \<Rightarrow> PaymentRequirements" where
  "buildPaymentRequirements cfg =
     \<lparr>pr_scheme = ''exact'', pr_network = network cfg, pr_amount = priceAtomic cfg,
      pr_asset = usdcAssetAddress cfg, pr_payTo = paymentRecipientAddress cfg,
      pr_maxTimeoutSeconds = 300, pr_extra_sponsored = Some True\<rparr>"

definition buildPaymentRequired :: "X402Config \<Rightarrow> string \<Rightarrow> PaymentRequired" where
  "buildPaymentRequired cfg requestUrl =
     (let requirements = buildPaymentRequirements cfg
      in \<lparr>prq_x402Version = 2, prq_error = ''PAYMENT-SIGNATURE header is required'',
          prq_resource =
            \<lparr>res_url = requestUrl,
             res_description =
               ''Soulbound Signature Service - '' @ signaturePriceUsdc cfg @ '' USDC'',
             res_mimeType = ''application/json''\<rparr>,
          prq_accepts = [requirements]\<rparr>)"

text \<open>\<^verbatim>\<open>verifyPayment\<close> and \<^verbatim>\<open>settlePayment\<close> return what \<^verbatim>\<open>JSON.parse\<close> and
  \<^verbatim>\<open>response.json()\<close> give them; \<open>None\<close> is the value \<^verbatim>\<open>null\<close>, on which the
  middleware's property access throws inside its \<^verbatim>\<open>try\<close>.\<close>

definition verifyPayment ::
  "Facilitator \<Rightarrow> PaymentPayload \<Rightarrow> PaymentRequirements \<Rightarrow> VerifyResult option" where
  "verifyPayment fac paymentPayload paymentRequirements =
     (case fac_verify fac paymentPayload paymentRequirements of
        VerifyJson result \<Rightarrow> Some result
      | VerifyJsonNull \<Rightarrow> None
      | VerifyNotJson responseText \<Rightarrow>
          Some \<lparr>isValid = False, vr_payer = None,
                invalidReason = Some (''Invalid response: '' @ responseText)\<rparr>
      | VerifyUnreachable \<Rightarrow>
          Some \<lparr>isValid = False, vr_payer = None,
                invalidReason = Some ''Verification request failed''\<rparr>)"

definition settlePayment ::
  "Facilitator \<Rightarrow> PaymentPayload \<Rightarrow> PaymentRequirements \<Rightarrow> SettleResult option" where
  "settlePayment fac paymentPayload paymentRequirements =
     (case fac_settle fac paymentPayload paymentRequirements of
        SettleJson result \<Rightarrow> Some result
      | SettleJsonNull \<Rightarrow> None
      | SettleUnreachable \<Rightarrow>
          Some \<lparr>success = False, transaction = None, sr_payer = None,
                errorReason = Some ''Settlement request failed''\<rparr>)"

definition x402PaymentMiddleware ::
  "X402Config \<Rightarrow> Facilitator \<Rightarrow> (string \<Rightarrow> PaymentPayload option) \<Rightarrow> string \<Rightarrow> string option
     \<Rightarrow> PaymentOutcome \<times> FacilitatorCall list" where
  "x402PaymentMiddleware cfg fac decode requestUrl paymentSignature =
     (if \<not> truthy paymentSignature then
        (Challenge 402 (buildPaymentRequired cfg requestUrl) ''Payment required'' 2, [])
      else
        (case decode (the paymentSignature) of
           None \<Rightarrow> (ServerError 500 ''Internal server error processing payment'', [])
         | Some paymentPayload \<Rightarrow>
             (let paymentRequirements = buildPaymentRequirements cfg
              in case verifyPayment fac paymentPayload paymentRequirements of
                   None \<Rightarrow>
                     (ServerError 500 ''Internal server error processing payment'', [CallVerify])
                 | Some verifyResult \<Rightarrow>
                     if \<not> isValid verifyResult then
                       (PaymentError 402 ''Payment verification failed''
                          (invalidReason verifyResult), [CallVerify])
                     else
                       (case settlePayment fac paymentPayload paymentRequirements of
                          None \<Rightarrow>
                            (ServerError 500 ''Internal server error processing payment'',
                             [CallVerify, CallSettle])
                        | Some settleResult \<Rightarrow>
                            if \<not> success settleResult then
                              (PaymentError 402 ''Payment settlement failed''
                                 (errorReason settleResult), [CallVerify, CallSettle])
                            else
                              (Next \<lparr>transactionHash = transaction settleResult,
                                     payer = orElse (vr_payer verifyResult)
                                                    (sr_payer settleResult),
                                     amount = pr_amount paymentRequirements,
                                     pi_network = pr_network paymentRequirements\<rparr>,
                               [CallVerify, CallSettle])))))"

text \<open>The status code of a response of the gate; a request handed on has none.\<close>

fun outcomeStatus :: "PaymentOutcome \<Rightarrow> nat option" where
  "outcomeStatus (Challenge st _ _ _) = Some st"
| "outcomeStatus (PaymentError st _ _) = Some st"
| "outcomeStatus (ServerError st _) = Some st"
| "outcomeStatus (Next _) = None"

fun creationProceeds :: "PaymentOutcome \<Rightarrow> bool" where
  "creationProceeds (Next _) = True"
| "creationProceeds _ = False"


section \<open>Conditions of the specification\<close>

text \<open>The condition of the specification for completion, in its words: every
  recipient with role signer has signing status signed. \<open>hasSigner\<close> says that there is
  such a recipient at all.\<close>

definition everySignerSigned :: "uuid \<Rightarrow> Db \<Rightarrow> bool" where
  "everySignerSigned documentId db =
     list_all (\<lambda>r. r_signing_status r = SigSigned)
       (filter (\<lambda>r. r_package_id r = documentId \<and> r_role r = RSigner) (recipients db))"

definition hasSigner :: "uuid \<Rightarrow> Db \<Rightarrow> bool" where
  "hasSigner documentId db =
     list_ex (\<lambda>r. r_package_id r = documentId \<and> r_role r = RSigner) (recipients db)"

text \<open>The finalization pipeline throws inside \<^verbatim>\<open>generateFinalDocument\<close> when there is
  an artifact to work on and the rendering step or the confirmation-page step throws.\<close>

definition finalizationThrows :: "Certificate \<Rightarrow> uuid \<Rightarrow> Db \<Rightarrow> bool" where
  "finalizationThrows cert documentId db =
     (case getPackageById documentId db of
        None \<Rightarrow> False
      | Some doc \<Rightarrow>
          truthy (p_document_data doc) \<and>
          (case renderFieldsOnPdf cert db (the (p_document_data doc)) documentId of
             None \<Rightarrow> True
           | Some rendered \<Rightarrow>
               appendConfirmationPage cert db rendered documentId (p_title doc) = None))"

text \<open>A sequence of lifecycle operations, each with the time at which it runs, and the
  invariant of the specification: \<^verbatim>\<open>completed_at\<close> is non-null exactly when the status
  is completed.\<close>

datatype LifecycleOp =
    OpCreate timestamp string string "string option" "string option" "string option"
  | OpAddRecipient uuid RecipientInput
  | OpDistribute timestamp uuid
  | OpCancel timestamp uuid
  | OpRecipientStatus timestamp uuid SigningStatus
  | OpCheckAndComplete timestamp uuid
  | OpDelete uuid

fun applyOp :: "Certificate \<Rightarrow> Db \<Rightarrow> LifecycleOp \<Rightarrow> Db" where
  "applyOp cert db (OpCreate now title owner tx data html) =
     snd (createPackage now title owner tx data html db)"
| "applyOp cert db (OpAddRecipient pid input) = snd (createRecipient pid input db)"
| "applyOp cert db (OpDistribute now i) = snd (distributeDocument now i db)"
| "applyOp cert db (OpCancel now i) = snd (cancelDocument now i db)"
| "applyOp cert db (OpRecipientStatus now i st) = updateRecipientStatus now i st None None db"
| "applyOp cert db (OpCheckAndComplete now i) = snd (checkAndCompleteDocument cert now i db)"
| "applyOp cert db (OpDelete i) = deleteDocument i db"

definition runOps :: "Certificate \<Rightarrow> Db \<Rightarrow> LifecycleOp list \<Rightarrow> Db" where
  "runOps cert db ops = foldl (applyOp cert) db ops"


text \<open>
  The signing mode of a payload. A payload field is present when it is a non-empty string.
  \<open>claimedSigningMode\<close> takes the four shapes as the specification words them, in
  its precedence: identity-verified when a credential reference and a verified name are
  present; wallet-cryptographic when a wallet signature, a wallet identity and a document
  digest are present and there is no verified-name claim; typed; drawn.
  \<open>signingModeOf\<close> differs in the second shape only: the wallet mode asks for the wallet
  signature, the wallet identity and the document digest, and is taken whenever the
  identity-verified shape is not matched, also when a verified name without a credential
  reference comes with them.
\<close>

datatype SigningMode = IdentityVerified | WalletCryptographic | TypedMode | DrawnMode

definition claimedSigningMode :: "SignFieldRequest \<Rightarrow> SigningMode option" where
  "claimedSigningMode body =
     (if truthy (b_kycNftAddress body) \<and> truthy (b_verifiedName body)
        then Some IdentityVerified
      else if truthy (b_walletSignature body) \<and> truthy (b_walletAddress body)
                \<and> truthy (b_documentHash body) \<and> \<not> truthy (b_verifiedName body)
        then Some WalletCryptographic
      else if truthy (b_typedSignature body) then Some TypedMode
      else if truthy (b_signatureImage body) then Some DrawnMode
      else None)"

definition signingModeOf :: "SignFieldRequest \<Rightarrow> SigningMode option" where
  "signingModeOf body =
     (if truthy (b_kycNftAddress body) \<and> truthy (b_verifiedName body)
        then Some IdentityVerified
      else if truthy (b_walletSignature body) \<and> truthy (b_walletAddress body)
                \<and> truthy (b_documentHash body)
        then Some WalletCryptographic
      else if truthy (b_typedSignature body) then Some TypedMode
      else if truthy (b_signatureImage body) then Some DrawnMode
      else None)"

text \<open>What a mode records, following section 4.4 of the specification: the payload of the
  Signature (in the identity-verified mode the verified name and the credential, with the
  wallet signature, wallet identity and digest alongside when the payload carries them),
  and the short rendering that becomes the field's value.\<close>

fun signatureDataOf :: "SigningMode \<Rightarrow> SignFieldRequest \<Rightarrow> SignatureData" where
  "signatureDataOf IdentityVerified body =
     noSignatureData\<lparr>kycVerifiedName := b_verifiedName body,
                     kycNftAddress := b_kycNftAddress body,
                     walletSignature := orNull (b_walletSignature body),
                     walletAddress := orNull (b_walletAddress body),
                     documentHash := orNull (b_documentHash body)\<rparr>"
| "signatureDataOf WalletCryptographic body =
     noSignatureData\<lparr>walletSignature := b_walletSignature body,
                     walletAddress := b_walletAddress body,
                     documentHash := b_documentHash body\<rparr>"
| "signatureDataOf TypedMode body = noSignatureData\<lparr>typedSignature := b_typedSignature body\<rparr>"
| "signatureDataOf DrawnMode body = noSignatureData\<lparr>signatureImage := b_signatureImage body\<rparr>"

fun fieldMarkerOf :: "SigningMode \<Rightarrow> SignFieldRequest \<Rightarrow> string option" where
  "fieldMarkerOf IdentityVerified body = Some (''[KYC: '' @ the (b_verifiedName body) @ '']'')"
| "fieldMarkerOf WalletCryptographic body =
     Some (''[Wallet: '' @ take 6 (the (b_walletAddress body)) @ ''...'' @
           drop (length (the (b_walletAddress body)) - 4) (the (b_walletAddress body)) @ '']'')"
| "fieldMarkerOf TypedMode body = b_typedSignature body"
| "fieldMarkerOf DrawnMode body = Some ''[signature image]''"

text \<open>The conditions of the specification on an identity-verified attempt: the claimed
  name matches an approved credential of the wallet, scoped to the named credential
  (same credential and the same name up to letter case); and the named credential is among
  the approved credentials of the wallet at all.\<close>

definition nameMatchesCredential ::
  "Chain \<Rightarrow> timestamp \<Rightarrow> string \<Rightarrow> string \<Rightarrow> string \<Rightarrow> bool" where
  "nameMatchesCredential chain now wallet nm credentialRef =
     list_ex (\<lambda>v. k_nftAddress v = credentialRef \<and>
                      toLowerCase (k_fullName v) = toLowerCase nm)
       (getKYCVerifiedNames chain now wallet)"

definition credentialBelongsTo :: "Chain \<Rightarrow> timestamp \<Rightarrow> string \<Rightarrow> string \<Rightarrow> bool" where
  "credentialBelongsTo chain now wallet credentialRef =
     list_ex (\<lambda>v. k_nftAddress v = credentialRef) (getKYCVerifiedNames chain now wallet)"

section \<open>Example states\<close>

text \<open>A certificate module that succeeds, one whose rendering step throws, two
  recipients, and the states reached by creating a document, adding a recipient,
  distributing, and (for the signer) completing the signing session.\<close>

definition workingCertificate :: Certificate where
  "workingCertificate =
     \<lparr>renderFieldsOnPdf = (\<lambda>db bytes i. Some (bytes @ ''+fields'')),
      appendConfirmationPage = (\<lambda>db bytes i title. Some (bytes @ ''+confirmation''))\<rparr>"

definition failingCertificate :: Certificate where
  "failingCertificate =
     \<lparr>renderFieldsOnPdf = (\<lambda>db bytes i. None),
      appendConfirmationPage = (\<lambda>db bytes i title. Some (bytes @ ''+confirmation''))\<rparr>"

definition alice :: RecipientInput where
  "alice = \<lparr>ri_walletAddress = None, ri_email = Some ''a@x.com'', ri_name = ''Alice'',
     ri_role = None, ri_signingOrder = Some 1\<rparr>"

definition victor :: RecipientInput where
  "victor = \<lparr>ri_walletAddress = None, ri_email = Some ''v@x.com'', ri_name = ''Victor'',
     ri_role = Some RViewer, ri_signingOrder = Some 1\<rparr>"

definition ndaOps :: "LifecycleOp list" where
  "ndaOps = [OpCreate 1 ''NDA'' ''0xabc'' (Some ''0xtx'') (Some ''pdf'') None,
             OpAddRecipient 0 alice, OpDistribute 2 0, OpRecipientStatus 3 2 SigSigned]"

definition signedDb :: Db where
  "signedDb = runOps workingCertificate empty_db ndaOps"

definition viewerOnlyDb :: Db where
  "viewerOnlyDb = runOps workingCertificate empty_db
     [OpCreate 1 ''NDA'' ''0xabc'' (Some ''0xtx'') (Some ''pdf'') None,
      OpAddRecipient 0 victor, OpDistribute 2 0]"



text \<open>An identity oracle in which the wallet \<^verbatim>\<open>0xa11ce\<close> owns one approved credential
  and every other wallet owns nothing; a request context; and the states of a document
  with a signature field and a text field, before distribution, pending, and after a
  typed signature.\<close>

definition exampleChain :: Chain where
  "exampleChain =
     \<lparr>kycCollectionAddress = ''0xc011'',
      getOwnedDigitalAssets =
        (\<lambda>w. if w = ''0xa11ce''
             then Some [\<lparr>token_data_id = Some ''0xnft1'',
                         current_token_data =
                           Some \<lparr>collection_id = Some ''0xc011'',
                                 token_properties =
                                   Some \<lparr>kyc_status = Some ''approved'',
                                         full_name = Some ''Alice Anderson'',
                                         country = None,
                                         verification_date = Some 7\<rparr>\<rparr>\<rparr>]
             else Some [])\<rparr>"

definition exampleCtx :: ReqCtx where
  "exampleCtx = \<lparr>clientIp = ''10.0.0.1'', userAgentHeader = Some ''curl''\<rparr>"

definition draftDb :: Db where
  "draftDb = runOps workingCertificate empty_db
     [OpCreate 1 ''NDA'' ''0xabc'' (Some ''0xtx'') (Some ''pdf'') None, OpAddRecipient 0 alice]"

definition fieldsDb :: Db where
  "fieldsDb = snd (createField 0 2 FText 1 None (snd (createField 0 2 FSignature 1 None draftDb)))"

definition pendingDb :: Db where
  "pendingDb = snd (distributeDocument 2 0 fieldsDb)"

definition typedRequest :: SignFieldRequest where
  "typedRequest = emptyRequest\<lparr>b_typedSignature := Some ''Alice A.''\<rparr>"

definition typedDb :: Db where
  "typedDb = snd (signField exampleChain 3 exampleCtx 1 3 typedRequest pendingDb)"

text \<open>A request naming a credential the wallet does not own; requests with two or more
  shapes present, with one shape, with a digest of 66 characters, and with a verified name
  but no credential next to the wallet signature; a request with the empty string as
  value; and the states after the signer completes the signing session and after the owner
  cancels.\<close>

definition strangerCredentialRequest :: SignFieldRequest where
  "strangerCredentialRequest =
     emptyRequest\<lparr>b_kycNftAddress := Some ''0xnft2'', b_verifiedName := Some ''alice anderson'',
                   b_walletAddress := Some ''0xa11ce''\<rparr>"

definition identityAndTypedRequest :: SignFieldRequest where
  "identityAndTypedRequest =
     emptyRequest\<lparr>b_kycNftAddress := Some ''0xnft1'', b_verifiedName := Some ''alice anderson'',
                   b_walletAddress := Some ''0xa11ce'', b_typedSignature := Some ''Alice A.''\<rparr>"

definition walletAndTypedRequest :: SignFieldRequest where
  "walletAndTypedRequest =
     emptyRequest\<lparr>b_walletSignature := Some ''0xsig'',
                   b_walletAddress := Some ''0xa11ce0123456789'',
                   b_documentHash := Some ''abcd'', b_typedSignature := Some ''Alice A.'',
                   b_signatureImage := Some ''data:image/png;base64,AAAA''\<rparr>"

definition typedAndDrawnRequest :: SignFieldRequest where
  "typedAndDrawnRequest =
     emptyRequest\<lparr>b_typedSignature := Some ''Alice A.'',
                   b_signatureImage := Some ''data:image/png;base64,AAAA''\<rparr>"

definition drawnRequest :: SignFieldRequest where
  "drawnRequest = emptyRequest\<lparr>b_signatureImage := Some ''data:image/png;base64,AAAA''\<rparr>"

definition longDigestRequest :: SignFieldRequest where
  "longDigestRequest =
     emptyRequest\<lparr>b_walletSignature := Some ''0xsig'',
                   b_walletAddress := Some ''0xa11ce0123456789'',
                   b_documentHash := Some (''0x'' @ replicate 64 (CHR ''a''))\<rparr>"

definition nameWithoutCredentialRequest :: SignFieldRequest where
  "nameWithoutCredentialRequest =
     emptyRequest\<lparr>b_verifiedName := Some ''Bob'', b_walletSignature := Some ''0xsig'',
                   b_walletAddress := Some ''0xa11ce0123456789'',
                   b_documentHash := Some ''abcd''\<rparr>"

definition emptyValueRequest :: SignFieldRequest where
  "emptyValueRequest = emptyRequest\<lparr>b_value := Some (JStr [])\<rparr>"

definition finishedDb :: Db where
  "finishedDb = snd (completeSigning workingCertificate 4 exampleCtx 1 typedDb)"

definition cancelledDb :: Db where
  "cancelledDb = snd (cancelDocument 4 0 pendingDb)"


text \<open>A configuration, a payment payload with the header that decodes to it, and four
  facilitators: one that answers \<^verbatim>\<open>/verify\<close> with the body \<^verbatim>\<open>null\<close>, one that accepts
  on \<^verbatim>\<open>/verify\<close> and answers \<^verbatim>\<open>/settle\<close> with \<^verbatim>\<open>null\<close>, one that cannot be reached,
  and one that accepts on \<^verbatim>\<open>/verify\<close> while \<^verbatim>\<open>/settle\<close> cannot be reached.\<close>

definition exampleConfig :: X402Config where
  "exampleConfig =
     \<lparr>facilitatorUrl = ''https://facilitator.example'', paymentRecipientAddress = ''0xpayee'',
      signaturePriceUsdc = ''1'', priceAtomic = ''1000000'', usdcAssetAddress = ''0xusdc'',
      network = ''aptos:2''\<rparr>"

definition examplePayload :: PaymentPayload where
  "examplePayload =
     \<lparr>pp_x402Version = 2,
      pp_resource = \<lparr>res_url = ''http://host/api/documents'', res_description = ''doc'',
                     res_mimeType = ''application/json''\<rparr>,
      pp_accepted = buildPaymentRequirements exampleConfig,
      pp_transaction = ''0xsigned'', pp_senderAuthenticator = None\<rparr>"

definition exampleDecode :: "string \<Rightarrow> PaymentPayload option" where
  "exampleDecode header = (if header = ''proof'' then Some examplePayload else None)"

definition nullVerifyFacilitator :: Facilitator where
  "nullVerifyFacilitator =
     \<lparr>fac_verify = (\<lambda>p r. VerifyJsonNull), fac_settle = (\<lambda>p r. SettleUnreachable)\<rparr>"

definition nullSettleFacilitator :: Facilitator where
  "nullSettleFacilitator =
     \<lparr>fac_verify = (\<lambda>p r. VerifyJson \<lparr>isValid = True, vr_payer = Some ''0xpayer'',
                                         invalidReason = None\<rparr>),
      fac_settle = (\<lambda>p r. SettleJsonNull)\<rparr>"

definition unreachableFacilitator :: Facilitator where
  "unreachableFacilitator =
     \<lparr>fac_verify = (\<lambda>p r. VerifyUnreachable), fac_settle = (\<lambda>p r. SettleUnreachable)\<rparr>"

definition settleUnreachableFacilitator :: Facilitator where
  "settleUnreachableFacilitator =
     \<lparr>fac_verify = (\<lambda>p r. VerifyJson \<lparr>isValid = True, vr_payer = Some ''0xpayer'',
                                         invalidReason = None\<rparr>),
      fac_settle = (\<lambda>p r. SettleUnreachable)\<rparr>"

section \<open>Document lifecycle: proofs\<close>

lemma length_filter_eq_all: "(length xs = length (filter P xs)) = list_all P xs"
proof (induction xs)
  case Nil
  then show ?case by simp
next
  case (Cons x xs)
  have le: "length (filter P xs) \<le> length xs" by (rule length_filter_le)
  show ?case
  proof (cases "P x")
    case True
    with Cons show ?thesis by simp
  next
    case False
    from le have "Suc (length xs) \<noteq> length (filter P xs)" by linarith
    with False show ?thesis by simp
  qed
qed

lemma checkAll_iff:
  "checkAllRecipientsSigned d db = (hasSigner d db \<and> everySignerSigned d db)"
proof -
  let ?rows = "filter (\<lambda>r. r_package_id r = d \<and> r_role r = RSigner) (recipients db)"
  have a: "(length ?rows = length (filter (\<lambda>r. r_signing_status r = SigSigned) ?rows))
           = everySignerSigned d db"
    unfolding everySignerSigned_def by (rule length_filter_eq_all)
  have b: "(0 < length ?rows) = hasSigner d db"
    unfolding hasSigner_def by (simp add: list_ex_iff filter_empty_conv)
  show ?thesis
    unfolding checkAllRecipientsSigned_def Let_def a b ..
qed

lemma find_map_update:
  assumes "\<And>p. p_id (g p) = p_id p"
  shows "find (\<lambda>p. p_id p = i) (map (\<lambda>p. if p_id p = i then g p else p) ps)
         = map_option g (find (\<lambda>p. p_id p = i) ps)"
  using assms by (induction ps) auto

lemma getPackageById_updatePackageStatus:
  "getPackageById i (snd (updatePackageStatus now i st db)) =
     map_option (\<lambda>p. p\<lparr>p_status := st,
                         p_completed_at := (if st = Completed then Some now else None)\<rparr>)
       (getPackageById i db)"
  unfolding updatePackageStatus_def getPackageById_def Let_def
  by (simp add: find_map_update)

lemma getPackageById_createAuditLog:
  "getPackageById i (snd (createAuditLog now p e d db)) = getPackageById i db"
  by (simp add: createAuditLog_def getPackageById_def Let_def)

lemma generateFinalDocument_throws:
  "finalizationThrows cert d db \<Longrightarrow> generateFinalDocument cert d db = db"
  by (auto simp: finalizationThrows_def generateFinalDocument_def split: option.splits)

text \<open>
  C1 (amended). The claim says that a failure of the finalization pipeline leaves the
  document pending. The pipeline catches its own failure: when every signer has signed and
  rendering or the confirmation page throws, \<^verbatim>\<open>checkAndCompleteDocument\<close> still returns
  true and the document is marked completed with \<^verbatim>\<open>completed_at\<close> stamped; the stored
  artifact and every other column of the document stay as they were.
\<close>

theorem finalization_failure_still_completes:
  assumes "getPackageById d db = Some p"
    and "checkAllRecipientsSigned d db"
    and "finalizationThrows cert d db"
  shows "fst (checkAndCompleteDocument cert now d db) = True \<and>
         getPackageById d (snd (checkAndCompleteDocument cert now d db))
           = Some (p\<lparr>p_status := Completed, p_completed_at := Some now\<rparr>)"
  using assms
  by (simp add: checkAndCompleteDocument_def Let_def generateFinalDocument_throws
        getPackageById_createAuditLog getPackageById_updatePackageStatus)

lemma signedDb_eval:
  "signedDb = \<lparr>packages =
    [\<lparr>p_id = 0, p_title = ''NDA'', p_status = Pending,
        p_owner_wallet_address = ''0xabc'',
        p_payment_tx_hash = Some ''0xtx'', p_document_data = Some ''pdf'',
        p_document_html = None, p_created_at = 1, p_completed_at = None\<rparr>],
    recipients =
      [\<lparr>r_id = 2, r_package_id = 0, r_wallet_address = None,
          r_email = Some ''a@x.com'', r_name = ''Alice'', r_role = RSigner,
          r_signing_order = Some 1, r_signing_status = SigSigned,
          r_signed_at = Some 3, r_ip_address = None, r_user_agent = None,
          r_token = 1\<rparr>],
    signature_fields = [], signatures = [],
    audit_logs =
      [\<lparr>a_id = 3, a_package_id = Some 0,
          a_event_type = document_distributed,
          a_user_wallet = Some ''0xabc'', a_user_email = None,
          a_ip_address = None, a_user_agent = None,
          a_data = [(''distributedAt'', MTime 2)], a_created_at = 2\<rparr>],
    next_uuid = 4\<rparr>"
  by (simp add: signedDb_def ndaOps_def runOps_def empty_db_def createPackage_def
        createRecipient_def distributeDocument_def updatePackageStatus_def
        updateRecipientStatus_def createAuditLog_def getPackageById_def alice_def
        orNull_def truthy_def noAuditData_def Let_def)

text \<open>
  C1 (counterexample). In \<open>signedDb\<close> the document is pending and its only signer has
  signed. With a certificate module whose rendering throws, the pipeline fails and the
  document is completed all the same.
\<close>

theorem finalization_failure_counterexample:
  "finalizationThrows failingCertificate 0 signedDb \<and>
   map p_status (packages signedDb) = [Pending] \<and>
   map p_status (packages (snd (checkAndCompleteDocument failingCertificate 9 0 signedDb)))
     = [Completed]"
  by (simp add: signedDb_eval finalizationThrows_def failingCertificate_def
        checkAndCompleteDocument_def checkAllRecipientsSigned_def generateFinalDocument_def
        updatePackageStatus_def createAuditLog_def getPackageById_def
        orNull_def truthy_def noAuditData_def Let_def)

text \<open>C1 (witness): the amended statement at \<open>signedDb\<close> with the failing module.\<close>

theorem finalization_failure_still_completes_witness:
  "getPackageById 0 (snd (checkAndCompleteDocument failingCertificate 9 0 signedDb))
     = Some \<lparr>p_id = 0, p_title = ''NDA'', p_status = Completed,
        p_owner_wallet_address = ''0xabc'',
        p_payment_tx_hash = Some ''0xtx'', p_document_data = Some ''pdf'',
        p_document_html = None, p_created_at = 1, p_completed_at = Some 9\<rparr>"
proof -
  have a: "getPackageById 0 signedDb = Some \<lparr>p_id = 0, p_title = ''NDA'', p_status = Pending,
        p_owner_wallet_address = ''0xabc'',
        p_payment_tx_hash = Some ''0xtx'', p_document_data = Some ''pdf'',
        p_document_html = None, p_created_at = 1, p_completed_at = None\<rparr>"
    by (simp add: signedDb_eval getPackageById_def)
  have b: "checkAllRecipientsSigned 0 signedDb"
    by (simp add: signedDb_eval checkAllRecipientsSigned_def)
  have c: "finalizationThrows failingCertificate 0 signedDb"
    by (simp add: signedDb_eval finalizationThrows_def failingCertificate_def
          getPackageById_def truthy_def)
  show ?thesis
    using finalization_failure_still_completes [OF a b c, of 9] by simp
qed























lemma getPackageById_updatePackageDocument:
  "getPackageById i (snd (updatePackageDocument i data db)) =
     map_option (\<lambda>p. p\<lparr>p_document_data := Some data\<rparr>) (getPackageById i db)"
  unfolding updatePackageDocument_def getPackageById_def Let_def
  by (simp add: find_map_update)

lemma getPackageById_generateFinalDocument:
  "(getPackageById i (generateFinalDocument cert i db) = None) = (getPackageById i db = None)"
  by (auto simp: generateFinalDocument_def getPackageById_updatePackageDocument
      split: option.splits)

lemma checkAndComplete_true:
  assumes "checkAllRecipientsSigned d db" and "getPackageById d db \<noteq> None"
  shows "map_option p_status (getPackageById d (snd (checkAndCompleteDocument cert now d db)))
           = Some Completed \<and>
         map_option p_completed_at
             (getPackageById d (snd (checkAndCompleteDocument cert now d db)))
           = Some (Some now)"
proof -
  from assms(2) obtain q where q: "getPackageById d (generateFinalDocument cert d db) = Some q"
    using getPackageById_generateFinalDocument [of d cert db] by auto
  show ?thesis
    using assms(1) q
    by (simp add: checkAndCompleteDocument_def Let_def getPackageById_createAuditLog
          getPackageById_updatePackageStatus)
qed

text \<open>
  C2 (amended). The claim says that the document is completed if and only if every
  signer has signed, also when there is no signer. The code asks for at least one signer:
  \<^verbatim>\<open>checkAndCompleteDocument\<close> returns true exactly when the document has a recipient
  with role signer and every such recipient has signed; then an existing document ends
  with status completed and \<^verbatim>\<open>completed_at\<close> stamped; otherwise the call returns false
  and changes nothing.
\<close>

theorem checkAndComplete_iff_signers_signed:
  "fst (checkAndCompleteDocument cert now d db) = (hasSigner d db \<and> everySignerSigned d db) \<and>
   (hasSigner d db \<and> everySignerSigned d db \<and> getPackageById d db \<noteq> None \<longrightarrow>
      map_option p_status (getPackageById d (snd (checkAndCompleteDocument cert now d db)))
        = Some Completed \<and>
      map_option p_completed_at
          (getPackageById d (snd (checkAndCompleteDocument cert now d db)))
        = Some (Some now)) \<and>
   (\<not> (hasSigner d db \<and> everySignerSigned d db) \<longrightarrow>
      checkAndCompleteDocument cert now d db = (False, db))"
proof (cases "checkAllRecipientsSigned d db")
  case True
  then have sig: "hasSigner d db \<and> everySignerSigned d db"
    using checkAll_iff [of d db] by simp
  have res: "fst (checkAndCompleteDocument cert now d db) = True"
    using True by (simp add: checkAndCompleteDocument_def Let_def)
  show ?thesis
    using sig res checkAndComplete_true [OF True, of cert now] by simp
next
  case False
  then have sig: "\<not> (hasSigner d db \<and> everySignerSigned d db)"
    using checkAll_iff [of d db] by simp
  have res: "checkAndCompleteDocument cert now d db = (False, db)"
    using False by (simp add: checkAndCompleteDocument_def Let_def)
  show ?thesis
    using sig res by auto
qed

lemma viewerOnlyDb_eval:
  "viewerOnlyDb = \<lparr>packages =
    [\<lparr>p_id = 0, p_title = ''NDA'', p_status = Pending,
        p_owner_wallet_address = ''0xabc'',
        p_payment_tx_hash = Some ''0xtx'', p_document_data = Some ''pdf'',
        p_document_html = None, p_created_at = 1, p_completed_at = None\<rparr>],
    recipients =
      [\<lparr>r_id = 2, r_package_id = 0, r_wallet_address = None,
          r_email = Some ''v@x.com'', r_name = ''Victor'', r_role = RViewer,
          r_signing_order = Some 1, r_signing_status = SigPending,
          r_signed_at = None, r_ip_address = None, r_user_agent = None,
          r_token = 1\<rparr>],
    signature_fields = [], signatures = [],
    audit_logs =
      [\<lparr>a_id = 3, a_package_id = Some 0,
          a_event_type = document_distributed,
          a_user_wallet = Some ''0xabc'', a_user_email = None,
          a_ip_address = None, a_user_agent = None,
          a_data = [(''distributedAt'', MTime 2)], a_created_at = 2\<rparr>],
    next_uuid = 4\<rparr>"
  by (simp add: viewerOnlyDb_def runOps_def empty_db_def createPackage_def
        createRecipient_def distributeDocument_def updatePackageStatus_def
        createAuditLog_def getPackageById_def victor_def
        orNull_def truthy_def noAuditData_def Let_def)

text \<open>
  C2 (counterexample). In \<open>viewerOnlyDb\<close> the document has one recipient, a viewer.
  Every signer has signed (there is none), yet the call returns false and the document
  stays pending.
\<close>

theorem zero_signers_counterexample:
  "everySignerSigned 0 viewerOnlyDb \<and>
   fst (checkAndCompleteDocument workingCertificate 9 0 viewerOnlyDb) = False \<and>
   map p_status (packages (snd (checkAndCompleteDocument workingCertificate 9 0 viewerOnlyDb)))
     = [Pending]"
  by (simp add: viewerOnlyDb_eval everySignerSigned_def checkAndCompleteDocument_def
        checkAllRecipientsSigned_def)

text \<open>
  C2 (witness): the amended statement at \<open>signedDb\<close> (one signer, signed) and at
  \<open>viewerOnlyDb\<close> (no signer).
\<close>

theorem checkAndComplete_iff_signers_signed_witness:
  "fst (checkAndCompleteDocument workingCertificate 9 0 signedDb) = True \<and>
   map_option p_status
     (getPackageById 0 (snd (checkAndCompleteDocument workingCertificate 9 0 signedDb)))
     = Some Completed \<and>
   checkAndCompleteDocument workingCertificate 9 0 viewerOnlyDb = (False, viewerOnlyDb)"
proof -
  have a: "hasSigner 0 signedDb \<and> everySignerSigned 0 signedDb \<and>
           getPackageById 0 signedDb \<noteq> None"
    by (simp add: signedDb_eval hasSigner_def everySignerSigned_def getPackageById_def)
  have b: "\<not> (hasSigner 0 viewerOnlyDb \<and> everySignerSigned 0 viewerOnlyDb)"
    by (simp add: viewerOnlyDb_eval hasSigner_def)
  show ?thesis
    using a b checkAndComplete_iff_signers_signed [of workingCertificate 9 0 signedDb]
      checkAndComplete_iff_signers_signed [of workingCertificate 9 0 viewerOnlyDb]
    by simp
qed

section \<open>Deletion: proofs\<close>

lemmas schema_defs =
  createPackage_def getPackageById_def updatePackageStatus_def updatePackageDocument_def
  createRecipient_def getRecipientByToken_def updateRecipientStatus_def createField_def
  getFieldById_def getFieldsByPackage_def getFieldsByRecipient_def getRecipientsByPackage_def
  updateFieldValue_def clearFieldValue_def createSignature_def getSignatureByField_def
  deleteSignatureByField_def createAuditLog_def getAuditLogsByPackage_def
  checkAllRecipientsSigned_def noSignatureData_def noAuditData_def
  storeText_def storeVarchar_def tryUpdateFieldValue_def tryCreateAuditLog_def
  truthy_def orNull_def orElse_def Let_def

lemma pendingDb_eval:
  "pendingDb = \<lparr>packages =
    [\<lparr>p_id = 0, p_title = ''NDA'', p_status = Pending,
        p_owner_wallet_address = ''0xabc'',
        p_payment_tx_hash = Some ''0xtx'', p_document_data = Some ''pdf'',
        p_document_html = None, p_created_at = 1, p_completed_at = None\<rparr>],
    recipients =
      [\<lparr>r_id = 2, r_package_id = 0, r_wallet_address = None,
          r_email = Some ''a@x.com'', r_name = ''Alice'', r_role = RSigner,
          r_signing_order = Some 1, r_signing_status = SigPending,
          r_signed_at = None, r_ip_address = None, r_user_agent = None,
          r_token = 1\<rparr>],
    signature_fields =
      [\<lparr>f_id = 3, f_package_id = 0, f_recipient_id = 2,
          f_field_type = FSignature, f_page = 1, f_value = None,
          f_field_meta = None, f_inserted = False\<rparr>,
       \<lparr>f_id = 4, f_package_id = 0, f_recipient_id = 2,
          f_field_type = FText, f_page = 1, f_value = None,
          f_field_meta = None, f_inserted = False\<rparr>],
    signatures = [],
    audit_logs =
      [\<lparr>a_id = 5, a_package_id = Some 0,
          a_event_type = document_distributed,
          a_user_wallet = Some ''0xabc'', a_user_email = None,
          a_ip_address = None, a_user_agent = None,
          a_data = [(''distributedAt'', MTime 2)], a_created_at = 2\<rparr>],
    next_uuid = 6\<rparr>"
  by (simp add: pendingDb_def fieldsDb_def draftDb_def runOps_def empty_db_def alice_def
        distributeDocument_def schema_defs)

lemma typedDb_eval:
  "typedDb = \<lparr>packages =
    [\<lparr>p_id = 0, p_title = ''NDA'', p_status = Pending,
        p_owner_wallet_address = ''0xabc'',
        p_payment_tx_hash = Some ''0xtx'', p_document_data = Some ''pdf'',
        p_document_html = None, p_created_at = 1, p_completed_at = None\<rparr>],
    recipients =
      [\<lparr>r_id = 2, r_package_id = 0, r_wallet_address = None,
          r_email = Some ''a@x.com'', r_name = ''Alice'', r_role = RSigner,
          r_signing_order = Some 1, r_signing_status = SigPending,
          r_signed_at = None, r_ip_address = None, r_user_agent = None,
          r_token = 1\<rparr>],
    signature_fields =
      [\<lparr>f_id = 3, f_package_id = 0, f_recipient_id = 2,
          f_field_type = FSignature, f_page = 1,
          f_value = Some ''Alice A.'', f_field_meta = None,
          f_inserted = True\<rparr>,
       \<lparr>f_id = 4, f_package_id = 0, f_recipient_id = 2,
          f_field_type = FText, f_page = 1, f_value = None,
          f_field_meta = None, f_inserted = False\<rparr>],
    signatures =
      [\<lparr>s_id = 6, s_field_id = 3, s_recipient_id = 2,
          s_signature_image = None, s_typed_signature = Some ''Alice A.'',
          s_kyc_verified_name = None, s_kyc_nft_address = None,
          s_wallet_signature = None, s_wallet_address = None,
          s_document_hash = None, s_signed_at = 3\<rparr>],
    audit_logs =
      [\<lparr>a_id = 5, a_package_id = Some 0,
          a_event_type = document_distributed,
          a_user_wallet = Some ''0xabc'', a_user_email = None,
          a_ip_address = None, a_user_agent = None,
          a_data = [(''distributedAt'', MTime 2)], a_created_at = 2\<rparr>,
       \<lparr>a_id = 7, a_package_id = Some 0, a_event_type = field_signed,
          a_user_wallet = None, a_user_email = Some ''a@x.com'',
          a_ip_address = Some ''10.0.0.1'', a_user_agent = Some ''curl'',
          a_data =
            [(''fieldId'', MUuid 3), (''fieldType'', MType FSignature),
             (''isKYC'', MBool False)],
          a_created_at = 3\<rparr>],
    next_uuid = 8\<rparr>"
  by (simp add: typedDb_def pendingDb_eval signField_def signSignatureField_def
        insertThenMark_def fieldSignedAudit_def isSignatureField_def typedRequest_def
        emptyRequest_def exampleCtx_def schema_defs)

lemma dropFields_tables:
  "signature_fields (dropFields P db) = filter (\<lambda>f. \<not> P f) (signature_fields db)"
  "set (signatures (dropFields P db)) \<subseteq> set (signatures db)"
  "recipients (dropFields P db) = recipients db"
  "audit_logs (dropFields P db) = audit_logs db"
  by (simp_all add: dropFields_def Let_def)

lemma dropRecipients_tables:
  "set (signature_fields (dropRecipients P db)) \<subseteq> set (signature_fields db)"
  "set (signatures (dropRecipients P db)) \<subseteq> set (signatures db)"
  "recipients (dropRecipients P db) = filter (\<lambda>r. \<not> P r) (recipients db)"
  "audit_logs (dropRecipients P db) = audit_logs db"
  by (auto simp: dropRecipients_def dropFields_def Let_def)

lemma deletePackage_tables:
  "set (signature_fields (deletePackage d db)) \<subseteq> set (signature_fields db)"
  "set (signatures (deletePackage d db)) \<subseteq> set (signatures db)"
  "set (recipients (deletePackage d db)) \<subseteq> set (recipients db)"
  "packages (deletePackage d db) = filter (\<lambda>p. p_id p \<noteq> d) (packages db)"
  by (auto simp: deletePackage_def dropRecipients_def dropFields_def Let_def)

lemma deletePackage_audit_logs:
  assumes "list_all (\<lambda>a. a_package_id a \<noteq> Some d) (audit_logs db)"
  shows "audit_logs (deletePackage d db) = audit_logs db"
proof -
  have "map (\<lambda>a. case a_package_id a of None \<Rightarrow> a
                  | Some q \<Rightarrow> if q \<in> set (map p_id (filter (\<lambda>p. p_id p = d) (packages db)))
                              then a\<lparr>a_package_id := None\<rparr> else a) (audit_logs db)
        = audit_logs db"
    using assms by (intro map_idI) (auto simp: list_all_iff split: option.splits)
  then show ?thesis
    by (simp add: deletePackage_def dropRecipients_def dropFields_def Let_def)
qed

lemma find_filter_None: "find (\<lambda>p. p_id p = d) (filter (\<lambda>p. p_id p \<noteq> d) ps) = None"
  by (simp add: find_None_iff)

text \<open>
  C4 (amended). \<^verbatim>\<open>deleteDocument\<close> deletes signatures (through the fields of the
  document), fields, recipients, audit events and the document, in that order. Afterwards
  the document is gone, no field and no recipient refers to it, no signature remains on a
  field that belonged to it (and the join of signatures with its fields is empty), and no
  audit event refers to it: the audit events of the
  document are deleted, and the audit events of other documents are kept as they were.
\<close>

theorem deleteDocument_removes_everything:
  "deleteDocument d db =
     deletePackage d (deleteAuditLogsByPackage d (deleteRecipientsByPackage d
       (deleteFieldsByPackage d (deleteSignaturesByPackage d db)))) \<and>
   getPackageById d (deleteDocument d db) = None \<and>
   getFieldsByPackage d (deleteDocument d db) = [] \<and>
   getRecipientsByPackage d (deleteDocument d db) = [] \<and>
   list_all (\<lambda>s. s_field_id s \<notin> set (map f_id (getFieldsByPackage d db)))
     (signatures (deleteDocument d db)) \<and>
   audit_logs (deleteDocument d db)
     = filter (\<lambda>a. a_package_id a \<noteq> Some d) (audit_logs db) \<and>
   getAuditLogsByPackage d (deleteDocument d db) = [] \<and>
   getSignaturesByPackage d (deleteDocument d db) = []"
proof -
  define db1 where "db1 = deleteSignaturesByPackage d db"
  define db2 where "db2 = deleteFieldsByPackage d db1"
  define db3 where "db3 = deleteRecipientsByPackage d db2"
  define db4 where "db4 = deleteAuditLogsByPackage d db3"
  have dd: "deleteDocument d db = deletePackage d db4"
    by (simp add: deleteDocument_def Let_def db1_def db2_def db3_def db4_def)
  have pk: "getPackageById d (deletePackage d db4) = None"
    by (simp add: getPackageById_def deletePackage_tables(4) find_filter_None)
  have s1: "\<forall>s \<in> set (signatures db1). s_field_id s \<notin> set (map f_id (getFieldsByPackage d db))"
    by (simp add: db1_def deleteSignaturesByPackage_def)
  have s4: "set (signatures db4) \<subseteq> set (signatures db1)"
    using dropFields_tables(2) [of "\<lambda>f. f_package_id f = d" db1]
      dropRecipients_tables(2) [of "\<lambda>r. r_package_id r = d" db2]
    by (auto simp: db4_def db3_def db2_def deleteAuditLogsByPackage_def
          deleteRecipientsByPackage_def deleteFieldsByPackage_def)
  have sg: "\<forall>s \<in> set (signatures (deletePackage d db4)).
              s_field_id s \<notin> set (map f_id (getFieldsByPackage d db))"
    using s1 s4 deletePackage_tables(2) [of d db4] by blast
  have f2: "\<forall>f \<in> set (signature_fields db2). f_package_id f \<noteq> d"
    by (simp add: db2_def deleteFieldsByPackage_def dropFields_tables(1))
  have f4: "set (signature_fields db4) \<subseteq> set (signature_fields db2)"
    using dropRecipients_tables(1) [of "\<lambda>r. r_package_id r = d" db2]
    by (simp add: db4_def db3_def deleteAuditLogsByPackage_def deleteRecipientsByPackage_def)
  have fl: "\<forall>f \<in> set (signature_fields (deletePackage d db4)). f_package_id f \<noteq> d"
    using f2 f4 deletePackage_tables(1) [of d db4] by blast
  have r3: "\<forall>r \<in> set (recipients db4). r_package_id r \<noteq> d"
    by (simp add: db4_def db3_def deleteAuditLogsByPackage_def deleteRecipientsByPackage_def
          dropRecipients_tables(3))
  have rc: "\<forall>r \<in> set (recipients (deletePackage d db4)). r_package_id r \<noteq> d"
    using r3 deletePackage_tables(3) [of d db4] by blast
  have a3: "audit_logs db3 = audit_logs db"
    by (simp add: db3_def db2_def db1_def deleteRecipientsByPackage_def deleteFieldsByPackage_def
          deleteSignaturesByPackage_def dropRecipients_tables(4) dropFields_tables(4))
  have a4: "audit_logs db4 = filter (\<lambda>a. a_package_id a \<noteq> Some d) (audit_logs db)"
    by (simp add: db4_def deleteAuditLogsByPackage_def a3)
  have au: "audit_logs (deletePackage d db4)
              = filter (\<lambda>a. a_package_id a \<noteq> Some d) (audit_logs db)"
    using deletePackage_audit_logs [of d db4] by (simp add: a4 list_all_iff)
  have rest: "getPackageById d (deleteDocument d db) = None \<and>
   getFieldsByPackage d (deleteDocument d db) = [] \<and>
   getRecipientsByPackage d (deleteDocument d db) = [] \<and>
   list_all (\<lambda>s. s_field_id s \<notin> set (map f_id (getFieldsByPackage d db)))
     (signatures (deleteDocument d db)) \<and>
   audit_logs (deleteDocument d db)
     = filter (\<lambda>a. a_package_id a \<noteq> Some d) (audit_logs db) \<and>
   getAuditLogsByPackage d (deleteDocument d db) = [] \<and>
   getSignaturesByPackage d (deleteDocument d db) = []"
    unfolding dd
    using pk sg fl rc au
    by (simp add: getFieldsByPackage_def getRecipientsByPackage_def getAuditLogsByPackage_def
          getSignaturesByPackage_def list_all_iff filter_empty_conv)
  have ord: "deleteDocument d db =
     deletePackage d (deleteAuditLogsByPackage d (deleteRecipientsByPackage d
       (deleteFieldsByPackage d (deleteSignaturesByPackage d db))))"
    by (simp add: deleteDocument_def Let_def)
  show ?thesis
    by (rule conjI [OF ord rest])
qed

lemmas delete_defs =
  deleteDocument_def deletePackage_def deleteRecipientsByPackage_def deleteFieldsByPackage_def
  deleteSignaturesByPackage_def deleteAuditLogsByPackage_def dropFields_def dropRecipients_def

text \<open>
  C4 (counterexample). The claim says that the audit events of a deleted document persist
  with a null document reference. In \<open>typedDb\<close> the document has two audit events; after
  \<^verbatim>\<open>deleteDocument\<close> the audit table is empty.
\<close>

theorem audit_events_deleted_counterexample:
  "map a_package_id (audit_logs typedDb) = [Some 0, Some 0] \<and>
   audit_logs (deleteDocument 0 typedDb) = []"
  by (simp add: typedDb_eval delete_defs schema_defs)

text \<open>
  C4 (witness): the amended statement at \<open>typedDb\<close>, where the document has two
  fields, one of them signed.
\<close>

theorem deleteDocument_removes_everything_witness:
  "map s_field_id (signatures typedDb) = [3] \<and>
   map f_id (getFieldsByPackage 0 typedDb) = [3, 4] \<and>
   signatures (deleteDocument 0 typedDb) = [] \<and>
   getFieldsByPackage 0 (deleteDocument 0 typedDb) = [] \<and>
   audit_logs (deleteDocument 0 typedDb) = []"
  using deleteDocument_removes_everything [of 0 typedDb]
  by (simp add: typedDb_eval delete_defs schema_defs)

text \<open>For comparison: deleting only the document row leaves its audit events in place
  with a null document reference, as the schema declares.\<close>

lemma set_null_when_only_the_package_is_deleted:
  "map a_package_id (audit_logs (deletePackage 0 typedDb)) = [None, None]"
  by (simp add: typedDb_eval delete_defs Let_def)

section \<open>Signing: proofs\<close>

lemma find_map_key:
  assumes "\<And>x. k (g x) = k x"
  shows "find (\<lambda>x. k x = i) (map (\<lambda>x. if k x = i then g x else x) xs)
         = map_option g (find (\<lambda>x. k x = i) xs)"
  using assms by (induction xs) auto

lemma find_snoc:
  "find P (xs @ [x]) =
     (case find P xs of None \<Rightarrow> (if P x then Some x else None) | Some y \<Rightarrow> Some y)"
  by (induction xs) simp_all

lemma signField_dispatch:
  assumes "getRecipientByToken token db = Some recipient"
    and "getFieldById fieldId db = Some field"
    and "f_recipient_id field = r_id recipient"
    and "getSignatureByField fieldId db = None"
  shows "signField chain now ctx token fieldId body db =
     (case (if isSignatureField (f_field_type field)
            then signSignatureField chain now recipient fieldId body db
            else signValueField now recipient fieldId body db) of
        Inl answer \<Rightarrow> answer
      | Inr db1 \<Rightarrow>
          (case tryCreateAuditLog now (Some (r_package_id recipient)) field_signed
                  (fieldSignedAudit recipient ctx fieldId field body) db1 of
             None \<Rightarrow> (failedToSign, db1)
           | Some (entry, db2) \<Rightarrow> (SuccessJson fieldId ''Field signed successfully'', db2)))"
  using assms by (simp add: signField_def)

lemma storeText_Some: "storeText v = Some c \<Longrightarrow> c = v"
  by (auto simp: storeText_def split: option.splits if_splits)

lemma createSignature_Some:
  assumes "createSignature now fieldId rid sd db = Some (row, db1)"
  shows "s_field_id row = fieldId \<and>
         db1 = db\<lparr>signatures := signatures db @ [row], next_uuid := Suc (next_uuid db)\<rparr>"
  using assms
  by (auto simp: createSignature_def Let_def split: Option.bind_splits)

lemma tryUpdateFieldValue_Some:
  "tryUpdateFieldValue i v db = Some db' \<Longrightarrow> db' = updateFieldValue i v db"
  by (auto simp: tryUpdateFieldValue_def dest: storeText_Some split: Option.bind_splits)

lemma tryUpdateFieldValue_None:
  "(tryUpdateFieldValue i v db = None) = (storeText v = None)"
  by (auto simp: tryUpdateFieldValue_def split: Option.bind_splits)

lemma tryCreateAuditLog_Some:
  assumes "tryCreateAuditLog now p e d db = Some (entry, db')"
  shows "signatures db' = signatures db \<and> signature_fields db' = signature_fields db"
  using assms
  by (auto simp: tryCreateAuditLog_def createAuditLog_def Let_def split: Option.bind_splits)

lemma tryCreateAuditLog_None_any_db:
  "(tryCreateAuditLog now p e d db = None) = (tryCreateAuditLog now' p' e' d db' = None)"
  by (auto simp: tryCreateAuditLog_def split: Option.bind_splits)

lemma field_after_update:
  assumes "getFieldById fieldId db = Some field"
  shows "getFieldById fieldId (updateFieldValue fieldId v db)
         = Some (field\<lparr>f_value := v, f_inserted := True\<rparr>)"
proof -
  have "find (\<lambda>f. f_id f = fieldId)
          (map (\<lambda>f. if f_id f = fieldId then f\<lparr>f_value := v, f_inserted := True\<rparr> else f)
               (signature_fields db))
        = map_option (\<lambda>f. f\<lparr>f_value := v, f_inserted := True\<rparr>)
            (find (\<lambda>f. f_id f = fieldId) (signature_fields db))"
    by (rule find_map_key) simp
  with assms show ?thesis
    by (simp add: getFieldById_def updateFieldValue_def)
qed

lemma recorded_after_sign:
  assumes "getSignatureByField fieldId db = None"
    and "getFieldById fieldId db = Some field"
    and "createSignature now fieldId rid sd db = Some (row, db1)"
    and "tryUpdateFieldValue fieldId marker db1 = Some db2"
    and "tryCreateAuditLog t p e d db2 = Some (entry, db3)"
  shows "getSignatureByField fieldId db3 = Some row \<and>
         getFieldById fieldId db3 = Some (field\<lparr>f_value := marker, f_inserted := True\<rparr>)"
proof -
  note c = createSignature_Some [OF assms(3)]
  note u = tryUpdateFieldValue_Some [OF assms(4)]
  note a = tryCreateAuditLog_Some [OF assms(5)]
  have f1: "getFieldById fieldId db1 = Some field"
    using assms(2) c by (simp add: getFieldById_def)
  have s: "getSignatureByField fieldId db3 = Some row"
    using assms(1) c u a
    by (simp add: getSignatureByField_def updateFieldValue_def find_snoc)
  have f: "getFieldById fieldId db3 = Some (field\<lparr>f_value := marker, f_inserted := True\<rparr>)"
    using field_after_update [OF f1, of marker] u a by (simp add: getFieldById_def)
  from s f show ?thesis by simp
qed

lemma recorded_after_value:
  assumes "getSignatureByField fieldId db = None"
    and "getFieldById fieldId db = Some field"
    and "tryUpdateFieldValue fieldId v db = Some db1"
    and "createSignature now fieldId rid sd db1 = Some (row, db2)"
    and "tryCreateAuditLog t p e d db2 = Some (entry, db3)"
  shows "getSignatureByField fieldId db3 = Some row \<and>
         getFieldById fieldId db3 = Some (field\<lparr>f_value := v, f_inserted := True\<rparr>)"
proof -
  note u = tryUpdateFieldValue_Some [OF assms(3)]
  note c = createSignature_Some [OF assms(4)]
  note a = tryCreateAuditLog_Some [OF assms(5)]
  have s: "getSignatureByField fieldId db3 = Some row"
    using assms(1) c u a
    by (simp add: getSignatureByField_def updateFieldValue_def find_snoc)
  have f: "getFieldById fieldId db3 = Some (field\<lparr>f_value := v, f_inserted := True\<rparr>)"
    using field_after_update [OF assms(2), of v] u c a by (simp add: getFieldById_def)
  from s f show ?thesis by simp
qed

lemma verified_iff_match:
  assumes "truthy (Some nft)"
  shows "verified (verifyKYCName chain now w nm (Some nft))
         = nameMatchesCredential chain now w nm nft"
proof (cases "find (\<lambda>v. k_nftAddress v = nft \<and> toLowerCase (k_fullName v) = toLowerCase nm)
                (getKYCVerifiedNames chain now w)")
  case None
  then have "\<not> nameMatchesCredential chain now w nm nft"
    by (simp add: nameMatchesCredential_def find_None_iff list_ex_iff)
  with None assms show ?thesis
    by (simp add: verifyKYCName_def Let_def kycFailed_def)
next
  case (Some m)
  then have ne: "getKYCVerifiedNames chain now w \<noteq> []" by auto
  from Some have "nameMatchesCredential chain now w nm nft"
    by (auto simp: nameMatchesCredential_def list_ex_iff find_Some_iff)
  with Some ne assms show ?thesis
    by (simp add: verifyKYCName_def Let_def kycMatched_def)
qed

lemma failed_reason:
  assumes "truthy (Some nft)" and "\<not> verified (verifyKYCName chain now w nm (Some nft))"
  shows "v_error (verifyKYCName chain now w nm (Some nft)) \<in>
           {Some ''No KYC NFTs found for this wallet'',
            Some ''Name does not match the specified KYC NFT''}"
  using assms
  by (auto simp: verifyKYCName_def Let_def kycFailed_def kycMatched_def split: option.splits if_splits)

lemma match_needs_credential:
  "nameMatchesCredential chain now w nm nft \<Longrightarrow> credentialBelongsTo chain now w nft"
  by (auto simp: nameMatchesCredential_def credentialBelongsTo_def list_ex_iff)

text \<open>
  C6. An identity-verified attempt on a signature-class field (credential reference and
  verified name present) whose claimed name does not match an approved credential of the
  signer's wallet, in particular one whose credential does not belong to that wallet, is
  answered with status 400, the error \<^verbatim>\<open>KYC verification failed\<close> and the reason the
  oracle states; the database is unchanged, so no signature row is created and the field
  keeps its value and its inserted flag.
\<close>

theorem identity_mismatch_rejected:
  assumes "getRecipientByToken token db = Some recipient"
    and "getFieldById fieldId db = Some field"
    and "f_recipient_id field = r_id recipient"
    and "getSignatureByField fieldId db = None"
    and "isSignatureField (f_field_type field)"
    and "b_kycNftAddress body = Some credentialRef" and "credentialRef \<noteq> []"
    and "b_verifiedName body = Some claimedName" and "claimedName \<noteq> []"
    and "\<not> nameMatchesCredential chain now (kycWallet recipient body) claimedName credentialRef
         \<or> \<not> credentialBelongsTo chain now (kycWallet recipient body) credentialRef"
  shows "signField chain now ctx token fieldId body db =
           (KycErrorJson 400 ''KYC verification failed''
              (v_error (verifyKYCName chain now (kycWallet recipient body) claimedName
                          (Some credentialRef))), db)
         \<and> v_error (verifyKYCName chain now (kycWallet recipient body) claimedName
                      (Some credentialRef)) \<in>
             {Some ''No KYC NFTs found for this wallet'',
              Some ''Name does not match the specified KYC NFT''}"
proof -
  have t: "truthy (Some credentialRef)" "truthy (Some claimedName)"
    using assms(7,9) by (simp_all add: truthy_def)
  have nm: "\<not> nameMatchesCredential chain now (kycWallet recipient body) claimedName credentialRef"
    using assms(10) match_needs_credential by blast
  then have nv: "\<not> verified (verifyKYCName chain now (kycWallet recipient body) claimedName
                              (Some credentialRef))"
    using verified_iff_match [OF t(1)] by simp
  have "signSignatureField chain now recipient fieldId body db =
          Inl (KycErrorJson 400 ''KYC verification failed''
                 (v_error (verifyKYCName chain now (kycWallet recipient body) claimedName
                             (Some credentialRef))), db)"
    using nv t assms(6,8) by (simp add: signSignatureField_def Let_def)
  then show ?thesis
    using signField_dispatch [OF assms(1-4)] assms(5) failed_reason [OF t(1) nv]
    by simp
qed

text \<open>
  C7. An unsign call with the token of a recipient whose signing status is signed is
  answered with status 400, whatever the field identifier and the state of the field; the
  database is unchanged, so no signature is deleted and no field value is cleared.
\<close>

theorem unsign_after_completion_fails:
  assumes "getRecipientByToken token db = Some recipient"
    and "r_signing_status recipient = SigSigned"
  shows "unsignField now token fieldId db =
           (ErrorJson 400 ''Cannot unsign after completing the signing session'', db)"
  using assms by (simp add: unsignField_def)

text \<open>
  C10. When the token resolves to a recipient whose document is cancelled or completed,
  the signing session is refused with status 400 and nothing is written (no fields or
  signatures are returned, no view is logged); for a draft or pending document the session
  is returned.
\<close>

theorem session_refused_for_closed_document:
  assumes "getRecipientByToken token db = Some recipient"
    and "getPackageById (r_package_id recipient) db = Some pkg"
  shows "(p_status pkg = Cancelled \<longrightarrow>
            getSigningSession chain now ctx token wallet db
              = (ErrorJson 400 ''This document has been cancelled'', db)) \<and>
         (p_status pkg = Completed \<longrightarrow>
            getSigningSession chain now ctx token wallet db
              = (ErrorJson 400 ''This document has already been completed'', db)) \<and>
         (p_status pkg = Draft \<or> p_status pkg = Pending \<longrightarrow>
            (\<exists>session. fst (getSigningSession chain now ctx token wallet db)
                          = SessionJson session))"
  using assms by (auto simp: getSigningSession_def Let_def)

lemma mode_none:
  "signingModeOf body = None \<Longrightarrow>
   signSignatureField chain now recipient fieldId body db =
     Inl (ErrorJson 400 ''Signature field requires walletSignature, signatureImage, typedSignature, or kycNftAddress+verifiedName'', db)"
  by (auto simp: signingModeOf_def signSignatureField_def split: if_splits)

lemma mode_rejected:
  "signingModeOf body = Some IdentityVerified \<Longrightarrow>
   \<not> verified (verifyKYCName chain now (kycWallet recipient body)
                        (the (b_verifiedName body)) (b_kycNftAddress body)) \<Longrightarrow>
   signSignatureField chain now recipient fieldId body db =
     Inl (KycErrorJson 400 ''KYC verification failed'' (v_error (verifyKYCName chain now (kycWallet recipient body)
                        (the (b_verifiedName body)) (b_kycNftAddress body))), db)"
  by (auto simp: signingModeOf_def signSignatureField_def Let_def split: if_splits)

lemma mode_taken:
  "signingModeOf body = Some m \<Longrightarrow>
   (m = IdentityVerified \<longrightarrow> verified (verifyKYCName chain now (kycWallet recipient body)
                        (the (b_verifiedName body)) (b_kycNftAddress body))) \<Longrightarrow>
   signSignatureField chain now recipient fieldId body db =
     insertThenMark now fieldId (r_id recipient) (signatureDataOf m body) (fieldMarkerOf m body) db"
  by (cases m) (auto simp: signingModeOf_def signSignatureField_def Let_def split: if_splits)

text \<open>
  The shapes as the claim words them and the shapes the handler tests select the same
  mode, except for a payload that carries a verified name without a credential reference
  together with the wallet signature, the wallet identity and the document digest.
\<close>

lemma claimed_mode_differs_only_on_name_without_credential:
  "truthy (b_kycNftAddress body) \<or> \<not> truthy (b_verifiedName body) \<or>
   \<not> (truthy (b_walletSignature body) \<and> truthy (b_walletAddress body)
        \<and> truthy (b_documentHash body))
   \<Longrightarrow> claimedSigningMode body = signingModeOf body"
  by (auto simp: claimedSigningMode_def signingModeOf_def)

text \<open>
  C5 (amended). On a signature-class field that the recipient owns and that is not yet
  signed, the signing mode follows the payload shape in the precedence identity-verified
  (credential reference and verified name present), then wallet-cryptographic (wallet
  signature, wallet identity and document digest present, whether or not a verified name
  comes with them), then typed, then drawn (\<open>signingModeOf\<close>). A payload of none of the
  four shapes is answered 400 with the validation error that names the alternatives, and
  nothing is written. In the identity-verified mode a failed verification is answered
  with the verification error, and nothing is written. Otherwise the handler inserts the
  signature row of the mode, writes the field's marker and appends the audit event; the
  answer is either success or 500 \<^verbatim>\<open>Failed to sign field\<close>. It is 500 with nothing
  written when the database refuses the signature row (a value longer than its column, or
  one holding the NUL character); it is success when the database accepts the three
  statements; and whenever it is success the stored signature is the row of the selected
  mode and the field carries the marker of that mode.
\<close>

theorem signing_mode_precedence:
  assumes "getRecipientByToken token db = Some recipient"
    and "getFieldById fieldId db = Some field"
    and "f_recipient_id field = r_id recipient"
    and "getSignatureByField fieldId db = None"
    and "isSignatureField (f_field_type field)"
  shows "(signingModeOf body = None \<longrightarrow>
            signField chain now ctx token fieldId body db = (ErrorJson 400 ''Signature field requires walletSignature, signatureImage, typedSignature, or kycNftAddress+verifiedName'', db)) \<and>
         (signingModeOf body = Some IdentityVerified \<and> \<not> verified (verifyKYCName chain now (kycWallet recipient body)
                        (the (b_verifiedName body)) (b_kycNftAddress body)) \<longrightarrow>
            signField chain now ctx token fieldId body db =
              (KycErrorJson 400 ''KYC verification failed'' (v_error (verifyKYCName chain now (kycWallet recipient body)
                        (the (b_verifiedName body)) (b_kycNftAddress body))), db)) \<and>
         (\<forall>m. signingModeOf body = Some m \<and> (m = IdentityVerified \<longrightarrow> verified (verifyKYCName chain now (kycWallet recipient body)
                        (the (b_verifiedName body)) (b_kycNftAddress body))) \<longrightarrow>
            (createSignature now fieldId (r_id recipient) (signatureDataOf m body) db = None \<longrightarrow>
               signField chain now ctx token fieldId body db = (failedToSign, db)) \<and>
            (fst (signField chain now ctx token fieldId body db) = SuccessJson fieldId ''Field signed successfully'' \<or>
             fst (signField chain now ctx token fieldId body db) = failedToSign) \<and>
            (createSignature now fieldId (r_id recipient) (signatureDataOf m body) db \<noteq> None \<and>
             storeText (fieldMarkerOf m body) \<noteq> None \<and>
             tryCreateAuditLog now (Some (r_package_id recipient)) field_signed
           (fieldSignedAudit recipient ctx fieldId field body) db \<noteq> None \<longrightarrow>
               fst (signField chain now ctx token fieldId body db) = SuccessJson fieldId ''Field signed successfully'') \<and>
            (fst (signField chain now ctx token fieldId body db) = SuccessJson fieldId ''Field signed successfully'' \<longrightarrow>
               getSignatureByField fieldId (snd (signField chain now ctx token fieldId body db))
                 = map_option fst (createSignature now fieldId (r_id recipient)
                                     (signatureDataOf m body) db) \<and>
               getFieldById fieldId (snd (signField chain now ctx token fieldId body db))
                 = Some (field\<lparr>f_value := fieldMarkerOf m body, f_inserted := True\<rparr>)))"
proof (intro conjI allI impI)
  note d = signField_dispatch [OF assms(1-4), of chain now ctx body]
  show "signField chain now ctx token fieldId body db = (ErrorJson 400 ''Signature field requires walletSignature, signatureImage, typedSignature, or kycNftAddress+verifiedName'', db)"
    if "signingModeOf body = None"
    using d assms(5) that by (simp add: mode_none)
  show "signField chain now ctx token fieldId body db =
              (KycErrorJson 400 ''KYC verification failed'' (v_error (verifyKYCName chain now (kycWallet recipient body)
                        (the (b_verifiedName body)) (b_kycNftAddress body))), db)"
    if "signingModeOf body = Some IdentityVerified \<and> \<not> verified (verifyKYCName chain now (kycWallet recipient body)
                        (the (b_verifiedName body)) (b_kycNftAddress body))"
    using d assms(5) that by (simp add: mode_rejected)
  fix m
  assume pm: "signingModeOf body = Some m \<and> (m = IdentityVerified \<longrightarrow> verified (verifyKYCName chain now (kycWallet recipient body)
                        (the (b_verifiedName body)) (b_kycNftAddress body)))"
  then have e: "signField chain now ctx token fieldId body db =
     (case insertThenMark now fieldId (r_id recipient) (signatureDataOf m body)
             (fieldMarkerOf m body) db of
        Inl answer \<Rightarrow> answer
      | Inr db1 \<Rightarrow>
          (case tryCreateAuditLog now (Some (r_package_id recipient)) field_signed
                  (fieldSignedAudit recipient ctx fieldId field body) db1 of
             None \<Rightarrow> (failedToSign, db1)
           | Some (entry, db2) \<Rightarrow> (SuccessJson fieldId ''Field signed successfully'', db2)))"
    using d assms(5) mode_taken [of body m chain now recipient fieldId db] by simp
  show "signField chain now ctx token fieldId body db = (failedToSign, db)"
    if "createSignature now fieldId (r_id recipient) (signatureDataOf m body) db = None"
    using e that by (simp add: insertThenMark_def)
  show "fst (signField chain now ctx token fieldId body db) = SuccessJson fieldId ''Field signed successfully'' \<or>
             fst (signField chain now ctx token fieldId body db) = failedToSign"
    unfolding e by (simp add: insertThenMark_def split: option.splits prod.splits)
  show "fst (signField chain now ctx token fieldId body db) = SuccessJson fieldId ''Field signed successfully''"
    if h: "createSignature now fieldId (r_id recipient) (signatureDataOf m body) db \<noteq> None \<and>
             storeText (fieldMarkerOf m body) \<noteq> None \<and>
             tryCreateAuditLog now (Some (r_package_id recipient)) field_signed
           (fieldSignedAudit recipient ctx fieldId field body) db \<noteq> None"
  proof -
    from h obtain row db1 where c: "createSignature now fieldId (r_id recipient)
        (signatureDataOf m body) db = Some (row, db1)" by auto
    from h obtain db2 where u: "tryUpdateFieldValue fieldId (fieldMarkerOf m body) db1 = Some db2"
      using tryUpdateFieldValue_None [of fieldId "fieldMarkerOf m body" db1] by auto
    from h obtain entry db3 where a: "tryCreateAuditLog now (Some (r_package_id recipient))
        field_signed (fieldSignedAudit recipient ctx fieldId field body) db2 = Some (entry, db3)"
      using tryCreateAuditLog_None_any_db [of now "Some (r_package_id recipient)" field_signed
          "fieldSignedAudit recipient ctx fieldId field body" db2 now
          "Some (r_package_id recipient)" field_signed db]
      by auto
    show ?thesis unfolding e by (simp add: insertThenMark_def c u a)
  qed
  assume ok: "fst (signField chain now ctx token fieldId body db) = SuccessJson fieldId ''Field signed successfully''"
  have ne: "SuccessJson fieldId ''Field signed successfully'' \<noteq> failedToSign"
    by (simp add: failedToSign_def)
  from ok ne obtain row db1 db2 entry db3 where
      c: "createSignature now fieldId (r_id recipient) (signatureDataOf m body) db = Some (row, db1)"
      and u: "tryUpdateFieldValue fieldId (fieldMarkerOf m body) db1 = Some db2"
      and a: "tryCreateAuditLog now (Some (r_package_id recipient)) field_signed
                (fieldSignedAudit recipient ctx fieldId field body) db2 = Some (entry, db3)"
    unfolding e by (auto simp: insertThenMark_def split: option.splits prod.splits)
  have r: "signField chain now ctx token fieldId body db
             = (SuccessJson fieldId ''Field signed successfully'', db3)"
    unfolding e by (simp add: insertThenMark_def c u a)
  note rec = recorded_after_sign [OF assms(4) assms(2) c u a]
  show "getSignatureByField fieldId (snd (signField chain now ctx token fieldId body db))
                 = map_option fst (createSignature now fieldId (r_id recipient)
                                     (signatureDataOf m body) db)"
    using rec by (simp add: r c)
  show "getFieldById fieldId (snd (signField chain now ctx token fieldId body db))
                 = Some (field\<lparr>f_value := fieldMarkerOf m body, f_inserted := True\<rparr>)"
    using rec by (simp add: r)
qed

text \<open>
  A non-signature field: an absent value is answered 400. A value that is a string or an
  exactly represented integer, free of the NUL character and of at most 255 characters,
  is stored verbatim as the field's value, and the signature row carries it as its typed
  text unless it is the empty string, provided the audit event is accepted. A value that
  the typed-text column refuses (more than 255 characters, not only trailing spaces) is
  answered 500 after the field's value was written.
\<close>

lemma sign_value_field:
  assumes "getRecipientByToken token db = Some recipient"
    and "getFieldById fieldId db = Some field"
    and "f_recipient_id field = r_id recipient"
    and "getSignatureByField fieldId db = None"
    and "\<not> isSignatureField (f_field_type field)"
  shows "(b_value body = None \<longrightarrow>
            signField chain now ctx token fieldId body db =
              (ErrorJson 400 ''value is required for this field type'', db)) \<and>
         (\<forall>v. b_value body = Some v \<and> jsSafeValue v \<and> CHR 0x00 \<notin> set (jsString v) \<and>
              length (jsString v) \<le> 255 \<and>
              tryCreateAuditLog now (Some (r_package_id recipient)) field_signed
              (fieldSignedAudit recipient ctx fieldId field body) db \<noteq> None \<longrightarrow>
            fst (signField chain now ctx token fieldId body db)
              = SuccessJson fieldId ''Field signed successfully'' \<and>
            getFieldById fieldId (snd (signField chain now ctx token fieldId body db))
              = Some (field\<lparr>f_value := Some (jsString v), f_inserted := True\<rparr>) \<and>
            map_option s_typed_signature
              (getSignatureByField fieldId (snd (signField chain now ctx token fieldId body db)))
              = Some (if jsString v = [] then None else Some (jsString v))) \<and>
         (\<forall>v. b_value body = Some v \<and> CHR 0x00 \<notin> set (jsString v) \<and>
              storeVarchar 255 (Some (jsString v)) = None \<longrightarrow>
            signField chain now ctx token fieldId body db =
              (failedToSign, updateFieldValue fieldId (Some (jsString v)) db))"
proof (intro conjI allI impI)
  note d = signField_dispatch [OF assms(1-4), of chain now ctx body]
  show "signField chain now ctx token fieldId body db =
              (ErrorJson 400 ''value is required for this field type'', db)"
    if "b_value body = None"
    using d assms(5) that by (simp add: signValueField_def)
  fix v
  {
    assume h: "b_value body = Some v \<and> jsSafeValue v \<and> CHR 0x00 \<notin> set (jsString v) \<and>
              length (jsString v) \<le> 255 \<and>
              tryCreateAuditLog now (Some (r_package_id recipient)) field_signed
              (fieldSignedAudit recipient ctx fieldId field body) db \<noteq> None"
    define db1 where "db1 = updateFieldValue fieldId (Some (jsString v)) db"
    have u: "tryUpdateFieldValue fieldId (Some (jsString v)) db = Some db1"
      using h by (simp add: tryUpdateFieldValue_def storeText_def db1_def)
    have "createSignature now fieldId (r_id recipient)
            (noSignatureData\<lparr>typedSignature := Some (jsString v)\<rparr>) db1 \<noteq> None"
      using h by (simp add: createSignature_def noSignatureData_def storeText_def
            storeVarchar_def orNull_def truthy_def Let_def)
    then obtain row db2 where c: "createSignature now fieldId (r_id recipient)
            (noSignatureData\<lparr>typedSignature := Some (jsString v)\<rparr>) db1 = Some (row, db2)"
      by auto
    have ty: "s_typed_signature row = (if jsString v = [] then None else Some (jsString v))"
      using c h by (auto simp: createSignature_def noSignatureData_def storeText_def
            storeVarchar_def orNull_def truthy_def Let_def split: Option.bind_splits if_splits)
    from h obtain entry db3 where a: "tryCreateAuditLog now (Some (r_package_id recipient))
        field_signed (fieldSignedAudit recipient ctx fieldId field body) db2 = Some (entry, db3)"
      using tryCreateAuditLog_None_any_db [of now "Some (r_package_id recipient)" field_signed
          "fieldSignedAudit recipient ctx fieldId field body" db2 now
          "Some (r_package_id recipient)" field_signed db]
      by auto
    have r: "signField chain now ctx token fieldId body db =
               (SuccessJson fieldId ''Field signed successfully'', db3)"
      using d assms(5) h by (simp add: signValueField_def u c a)
    note rec = recorded_after_value [OF assms(4) assms(2) u c a]
    show "fst (signField chain now ctx token fieldId body db)
              = SuccessJson fieldId ''Field signed successfully''"
      by (simp add: r)
    show "getFieldById fieldId (snd (signField chain now ctx token fieldId body db))
              = Some (field\<lparr>f_value := Some (jsString v), f_inserted := True\<rparr>)"
      using rec by (simp add: r)
    show "map_option s_typed_signature
              (getSignatureByField fieldId (snd (signField chain now ctx token fieldId body db)))
              = Some (if jsString v = [] then None else Some (jsString v))"
      using rec ty by (simp add: r)
  }
  assume h: "b_value body = Some v \<and> CHR 0x00 \<notin> set (jsString v) \<and>
              storeVarchar 255 (Some (jsString v)) = None"
  have u: "tryUpdateFieldValue fieldId (Some (jsString v)) db
             = Some (updateFieldValue fieldId (Some (jsString v)) db)"
    using h by (simp add: tryUpdateFieldValue_def storeText_def)
  from h have ne: "jsString v \<noteq> []"
    by (auto simp: storeVarchar_def split: if_splits)
  have c: "createSignature now fieldId (r_id recipient)
            (noSignatureData\<lparr>typedSignature := Some (jsString v)\<rparr>)
            (updateFieldValue fieldId (Some (jsString v)) db) = None"
    using h ne by (simp add: createSignature_def noSignatureData_def storeText_def
          orNull_def truthy_def Let_def)
  show "signField chain now ctx token fieldId body db =
              (failedToSign, updateFieldValue fieldId (Some (jsString v)) db)"
    using d assms(5) h by (simp add: signValueField_def u c)
qed

lemma finishedDb_eval:
  "finishedDb = \<lparr>packages =
    [\<lparr>p_id = 0, p_title = ''NDA'', p_status = Completed,
        p_owner_wallet_address = ''0xabc'',
        p_payment_tx_hash = Some ''0xtx'',
        p_document_data = Some ''pdf+fields+confirmation'',
        p_document_html = None, p_created_at = 1, p_completed_at = Some 4\<rparr>],
    recipients =
      [\<lparr>r_id = 2, r_package_id = 0, r_wallet_address = None,
          r_email = Some ''a@x.com'', r_name = ''Alice'', r_role = RSigner,
          r_signing_order = Some 1, r_signing_status = SigSigned,
          r_signed_at = Some 4, r_ip_address = Some ''10.0.0.1'',
          r_user_agent = Some ''curl'', r_token = 1\<rparr>],
    signature_fields =
      [\<lparr>f_id = 3, f_package_id = 0, f_recipient_id = 2,
          f_field_type = FSignature, f_page = 1,
          f_value = Some ''Alice A.'', f_field_meta = None,
          f_inserted = True\<rparr>,
       \<lparr>f_id = 4, f_package_id = 0, f_recipient_id = 2,
          f_field_type = FText, f_page = 1, f_value = None,
          f_field_meta = None, f_inserted = False\<rparr>],
    signatures =
      [\<lparr>s_id = 6, s_field_id = 3, s_recipient_id = 2,
          s_signature_image = None, s_typed_signature = Some ''Alice A.'',
          s_kyc_verified_name = None, s_kyc_nft_address = None,
          s_wallet_signature = None, s_wallet_address = None,
          s_document_hash = None, s_signed_at = 3\<rparr>],
    audit_logs =
      [\<lparr>a_id = 5, a_package_id = Some 0,
          a_event_type = document_distributed,
          a_user_wallet = Some ''0xabc'', a_user_email = None,
          a_ip_address = None, a_user_agent = None,
          a_data = [(''distributedAt'', MTime 2)], a_created_at = 2\<rparr>,
       \<lparr>a_id = 7, a_package_id = Some 0, a_event_type = field_signed,
          a_user_wallet = None, a_user_email = Some ''a@x.com'',
          a_ip_address = Some ''10.0.0.1'', a_user_agent = Some ''curl'',
          a_data =
            [(''fieldId'', MUuid 3), (''fieldType'', MType FSignature),
             (''isKYC'', MBool False)],
          a_created_at = 3\<rparr>,
       \<lparr>a_id = 8, a_package_id = Some 0, a_event_type = signing_completed,
          a_user_wallet = None, a_user_email = Some ''a@x.com'',
          a_ip_address = Some ''10.0.0.1'', a_user_agent = Some ''curl'',
          a_data =
            [(''recipientName'', MStr ''Alice''), (''signedAt'', MTime 4)],
          a_created_at = 4\<rparr>,
       \<lparr>a_id = 9, a_package_id = Some 0, a_event_type = document_completed,
          a_user_wallet = None, a_user_email = None, a_ip_address = None,
          a_user_agent = None, a_data = [(''completedAt'', MTime 4)],
          a_created_at = 4\<rparr>],
    next_uuid = 10\<rparr>"
  by (simp add: finishedDb_def typedDb_eval completeSigning_def exampleCtx_def
        isRequiredField_def isSignatureField_def checkAndCompleteDocument_def
        generateFinalDocument_def workingCertificate_def schema_defs)

lemma cancelledDb_eval:
  "cancelledDb = \<lparr>packages =
    [\<lparr>p_id = 0, p_title = ''NDA'', p_status = Cancelled,
        p_owner_wallet_address = ''0xabc'',
        p_payment_tx_hash = Some ''0xtx'', p_document_data = Some ''pdf'',
        p_document_html = None, p_created_at = 1, p_completed_at = None\<rparr>],
    recipients =
      [\<lparr>r_id = 2, r_package_id = 0, r_wallet_address = None,
          r_email = Some ''a@x.com'', r_name = ''Alice'', r_role = RSigner,
          r_signing_order = Some 1, r_signing_status = SigPending,
          r_signed_at = None, r_ip_address = None, r_user_agent = None,
          r_token = 1\<rparr>],
    signature_fields =
      [\<lparr>f_id = 3, f_package_id = 0, f_recipient_id = 2,
          f_field_type = FSignature, f_page = 1, f_value = None,
          f_field_meta = None, f_inserted = False\<rparr>,
       \<lparr>f_id = 4, f_package_id = 0, f_recipient_id = 2,
          f_field_type = FText, f_page = 1, f_value = None,
          f_field_meta = None, f_inserted = False\<rparr>],
    signatures = [],
    audit_logs =
      [\<lparr>a_id = 5, a_package_id = Some 0,
          a_event_type = document_distributed,
          a_user_wallet = Some ''0xabc'', a_user_email = None,
          a_ip_address = None, a_user_agent = None,
          a_data = [(''distributedAt'', MTime 2)], a_created_at = 2\<rparr>,
       \<lparr>a_id = 6, a_package_id = Some 0, a_event_type = document_cancelled,
          a_user_wallet = Some ''0xabc'', a_user_email = None,
          a_ip_address = None, a_user_agent = None,
          a_data = [(''cancelledAt'', MTime 4)], a_created_at = 4\<rparr>],
    next_uuid = 7\<rparr>"
  by (simp add: cancelledDb_def pendingDb_eval cancelDocument_def schema_defs)

lemma pendingDb_lookups:
  "getRecipientByToken 1 pendingDb = Some \<lparr>r_id = 2, r_package_id = 0, r_wallet_address = None,
          r_email = Some ''a@x.com'', r_name = ''Alice'', r_role = RSigner,
          r_signing_order = Some 1, r_signing_status = SigPending,
          r_signed_at = None, r_ip_address = None, r_user_agent = None,
          r_token = 1\<rparr>"
  "getFieldById 3 pendingDb = Some \<lparr>f_id = 3, f_package_id = 0, f_recipient_id = 2,
          f_field_type = FSignature, f_page = 1, f_value = None,
          f_field_meta = None, f_inserted = False\<rparr>"
  "getSignatureByField 3 pendingDb = None"
  by (simp_all add: pendingDb_eval getRecipientByToken_def getFieldById_def
        getSignatureByField_def)

lemmas sign_defs =
  signField_def signSignatureField_def signValueField_def insertThenMark_def
  fieldSignedAudit_def failedToSign_def isSignatureField_def kycWallet_def exampleCtx_def
  emptyRequest_def

lemma example_names:
  "getKYCVerifiedNames exampleChain 3 ''0xa11ce'' =
      [\<lparr>k_nftAddress = ''0xnft1'', k_fullName = ''Alice Anderson'', k_country = None,
        k_verificationDate = 7\<rparr>]"
  by (simp add: getKYCVerifiedNames_def exampleChain_def List.map_filter_def truthy_def)

lemma example_lower: "toLowerCase ''Alice Anderson'' = toLowerCase ''alice anderson''"
  by code_simp

lemma example_verified:
  "verified (verifyKYCName exampleChain 3 ''0xa11ce'' ''alice anderson'' (Some ''0xnft1''))"
  by (simp add: verifyKYCName_def example_names example_lower truthy_def kycMatched_def)

text \<open>
  C5 (counterexample). A payload with a verified name, no credential reference, and the
  wallet signature, wallet identity and document digest matches none of the four shapes
  as the claim words them (the wallet shape there is without a verified-name claim), so
  the claim has the call fail with the validation error. The handler takes the wallet
  mode: the call succeeds and the wallet signature is stored.
\<close>

theorem wallet_mode_with_verified_name_counterexample:
  "claimedSigningMode nameWithoutCredentialRequest = None \<and>
   fst (signField exampleChain 3 exampleCtx 1 3 nameWithoutCredentialRequest pendingDb)
     = SuccessJson 3 ''Field signed successfully'' \<and>
   map_option s_wallet_signature
     (getSignatureByField 3
        (snd (signField exampleChain 3 exampleCtx 1 3 nameWithoutCredentialRequest pendingDb)))
     = Some (Some ''0xsig'')"
  by (simp add: claimedSigningMode_def nameWithoutCredentialRequest_def pendingDb_eval
        sign_defs schema_defs)

text \<open>
  C5 (witness): on the pending document, payloads in which two shapes are present at once.
  Credential, verified name and typed text: identity-verified, the typed text is not
  stored. Wallet triple and typed text: wallet-cryptographic. Typed text and image: typed,
  the image is not stored. An image alone: drawn. The empty payload: 400. A wallet triple
  whose digest has 66 characters: 500, nothing written.
\<close>

theorem signing_mode_precedence_witness:
  "signingModeOf identityAndTypedRequest = Some IdentityVerified \<and>
   fst (signField exampleChain 3 exampleCtx 1 3 identityAndTypedRequest pendingDb) = SuccessJson 3 ''Field signed successfully'' \<and>
   map_option s_kyc_verified_name
     (getSignatureByField 3 (snd (signField exampleChain 3 exampleCtx 1 3 identityAndTypedRequest pendingDb)))
     = Some (Some ''alice anderson'') \<and>
   map_option s_typed_signature
     (getSignatureByField 3 (snd (signField exampleChain 3 exampleCtx 1 3 identityAndTypedRequest pendingDb)))
     = Some None \<and>
   signingModeOf walletAndTypedRequest = Some WalletCryptographic \<and>
   fst (signField exampleChain 3 exampleCtx 1 3 walletAndTypedRequest pendingDb) = SuccessJson 3 ''Field signed successfully'' \<and>
   map_option s_wallet_signature
     (getSignatureByField 3 (snd (signField exampleChain 3 exampleCtx 1 3 walletAndTypedRequest pendingDb)))
     = Some (Some ''0xsig'') \<and>
   map_option f_value (getFieldById 3 (snd (signField exampleChain 3 exampleCtx 1 3 walletAndTypedRequest pendingDb)))
     = Some (Some ''[Wallet: 0xa11c...6789]'') \<and>
   signingModeOf typedAndDrawnRequest = Some TypedMode \<and>
   fst (signField exampleChain 3 exampleCtx 1 3 typedAndDrawnRequest pendingDb) = SuccessJson 3 ''Field signed successfully'' \<and>
   map_option s_typed_signature
     (getSignatureByField 3 (snd (signField exampleChain 3 exampleCtx 1 3 typedAndDrawnRequest pendingDb)))
     = Some (Some ''Alice A.'') \<and>
   map_option s_signature_image
     (getSignatureByField 3 (snd (signField exampleChain 3 exampleCtx 1 3 typedAndDrawnRequest pendingDb)))
     = Some None \<and>
   signingModeOf drawnRequest = Some DrawnMode \<and>
   fst (signField exampleChain 3 exampleCtx 1 3 drawnRequest pendingDb) = SuccessJson 3 ''Field signed successfully'' \<and>
   map_option f_value (getFieldById 3 (snd (signField exampleChain 3 exampleCtx 1 3 drawnRequest pendingDb)))
     = Some (Some ''[signature image]'') \<and>
   signingModeOf emptyRequest = None \<and>
   signField exampleChain 3 exampleCtx 1 3 emptyRequest pendingDb = (ErrorJson 400 ''Signature field requires walletSignature, signatureImage, typedSignature, or kycNftAddress+verifiedName'', pendingDb) \<and>
   signingModeOf longDigestRequest = Some WalletCryptographic \<and>
   signField exampleChain 3 exampleCtx 1 3 longDigestRequest pendingDb = (ErrorJson 500 ''Failed to sign field'', pendingDb)"
proof -
  note w = signing_mode_precedence [OF pendingDb_lookups(1) pendingDb_lookups(2) _
             pendingDb_lookups(3), where chain = exampleChain and now = 3 and ctx = exampleCtx]
  note ev = signingModeOf_def truthy_def orNull_def emptyRequest_def isSignatureField_def
    createSignature_def storeText_def storeVarchar_def tryCreateAuditLog_def
    fieldSignedAudit_def noSignatureData_def noAuditData_def exampleCtx_def Let_def
    kycWallet_def orElse_def failedToSign_def
  have i0: "signingModeOf identityAndTypedRequest = Some IdentityVerified"
    by (simp add: identityAndTypedRequest_def ev)
  have iv: "verified (verifyKYCName exampleChain 3
              (kycWallet \<lparr>r_id = 2, r_package_id = 0, r_wallet_address = None,
                 r_email = Some ''a@x.com'', r_name = ''Alice'', r_role = RSigner,
                 r_signing_order = Some 1, r_signing_status = SigPending,
                 r_signed_at = None, r_ip_address = None, r_user_agent = None,
                 r_token = 1\<rparr> identityAndTypedRequest)
              (the (b_verifiedName identityAndTypedRequest))
              (b_kycNftAddress identityAndTypedRequest))"
    using example_verified by (simp add: identityAndTypedRequest_def ev)
  have i: "fst (signField exampleChain 3 exampleCtx 1 3 identityAndTypedRequest pendingDb) = SuccessJson 3 ''Field signed successfully'' \<and>
     map_option s_kyc_verified_name
       (getSignatureByField 3 (snd (signField exampleChain 3 exampleCtx 1 3 identityAndTypedRequest pendingDb)))
       = Some (Some ''alice anderson'') \<and>
     map_option s_typed_signature
       (getSignatureByField 3 (snd (signField exampleChain 3 exampleCtx 1 3 identityAndTypedRequest pendingDb)))
       = Some None"
    using w [where body = identityAndTypedRequest] i0 iv
    by (simp add: identityAndTypedRequest_def ev)
  have w0: "signingModeOf walletAndTypedRequest = Some WalletCryptographic"
    by (simp add: walletAndTypedRequest_def ev)
  have wl: "fst (signField exampleChain 3 exampleCtx 1 3 walletAndTypedRequest pendingDb) = SuccessJson 3 ''Field signed successfully'' \<and>
     map_option s_wallet_signature
       (getSignatureByField 3 (snd (signField exampleChain 3 exampleCtx 1 3 walletAndTypedRequest pendingDb)))
       = Some (Some ''0xsig'') \<and>
     map_option f_value (getFieldById 3 (snd (signField exampleChain 3 exampleCtx 1 3 walletAndTypedRequest pendingDb)))
       = Some (Some ''[Wallet: 0xa11c...6789]'')"
    using w [where body = walletAndTypedRequest] w0
    by (simp add: walletAndTypedRequest_def ev)
  have t0: "signingModeOf typedAndDrawnRequest = Some TypedMode"
    by (simp add: typedAndDrawnRequest_def ev)
  have t: "fst (signField exampleChain 3 exampleCtx 1 3 typedAndDrawnRequest pendingDb) = SuccessJson 3 ''Field signed successfully'' \<and>
     map_option s_typed_signature
       (getSignatureByField 3 (snd (signField exampleChain 3 exampleCtx 1 3 typedAndDrawnRequest pendingDb)))
       = Some (Some ''Alice A.'') \<and>
     map_option s_signature_image
       (getSignatureByField 3 (snd (signField exampleChain 3 exampleCtx 1 3 typedAndDrawnRequest pendingDb)))
       = Some None"
    using w [where body = typedAndDrawnRequest] t0
    by (simp add: typedAndDrawnRequest_def ev)
  have d0: "signingModeOf drawnRequest = Some DrawnMode"
    by (simp add: drawnRequest_def ev)
  have dr: "fst (signField exampleChain 3 exampleCtx 1 3 drawnRequest pendingDb) = SuccessJson 3 ''Field signed successfully'' \<and>
     map_option f_value (getFieldById 3 (snd (signField exampleChain 3 exampleCtx 1 3 drawnRequest pendingDb)))
       = Some (Some ''[signature image]'')"
    using w [where body = drawnRequest] d0
    by (simp add: drawnRequest_def ev)
  have e0: "signingModeOf emptyRequest = None"
    by (simp add: ev)
  have e: "signField exampleChain 3 exampleCtx 1 3 emptyRequest pendingDb = (ErrorJson 400 ''Signature field requires walletSignature, signatureImage, typedSignature, or kycNftAddress+verifiedName'', pendingDb)"
    using w [where body = emptyRequest] e0 by (simp add: isSignatureField_def)
  have l0: "signingModeOf longDigestRequest = Some WalletCryptographic"
    by (simp add: longDigestRequest_def ev)
  have l1: "createSignature 3 3 2 (signatureDataOf WalletCryptographic longDigestRequest)
              pendingDb = None"
    by (simp add: longDigestRequest_def ev numeral_2_eq_2)
  have l: "signField exampleChain 3 exampleCtx 1 3 longDigestRequest pendingDb = (ErrorJson 500 ''Failed to sign field'', pendingDb)"
    using w [where body = longDigestRequest] l0 l1
    by (simp add: isSignatureField_def failedToSign_def)
  from i0 i w0 wl t0 t d0 dr e0 e l0 l show ?thesis by simp
qed

text \<open>
  C6 (witness): the wallet \<^verbatim>\<open>0xa11ce\<close> does not own the credential \<^verbatim>\<open>0xnft2\<close>.
\<close>

theorem identity_mismatch_rejected_witness:
  "\<not> credentialBelongsTo exampleChain 3 ''0xa11ce'' ''0xnft2'' \<and>
   signField exampleChain 3 exampleCtx 1 3 strangerCredentialRequest pendingDb =
     (KycErrorJson 400 ''KYC verification failed''
        (Some ''Name does not match the specified KYC NFT''), pendingDb)"
proof -
  have names: "getKYCVerifiedNames exampleChain 3 ''0xa11ce'' =
      [\<lparr>k_nftAddress = ''0xnft1'', k_fullName = ''Alice Anderson'', k_country = None,
        k_verificationDate = 7\<rparr>]"
    by (simp add: getKYCVerifiedNames_def exampleChain_def List.map_filter_def truthy_def)
  have kw: "kycWallet \<lparr>r_id = 2, r_package_id = 0, r_wallet_address = None,
          r_email = Some ''a@x.com'', r_name = ''Alice'', r_role = RSigner,
          r_signing_order = Some 1, r_signing_status = SigPending,
          r_signed_at = None, r_ip_address = None, r_user_agent = None,
          r_token = 1\<rparr> strangerCredentialRequest = ''0xa11ce''"
    by (simp add: kycWallet_def strangerCredentialRequest_def emptyRequest_def orElse_def
          truthy_def)
  have nb: "\<not> credentialBelongsTo exampleChain 3 ''0xa11ce'' ''0xnft2''"
    by (simp add: credentialBelongsTo_def names)
  have err: "v_error (verifyKYCName exampleChain 3 ''0xa11ce'' ''alice anderson'' (Some ''0xnft2''))
               = Some ''Name does not match the specified KYC NFT''"
    by (simp add: verifyKYCName_def names truthy_def kycFailed_def)
  have b1: "b_kycNftAddress strangerCredentialRequest = Some ''0xnft2''"
    and b2: "b_verifiedName strangerCredentialRequest = Some ''alice anderson''"
    by (simp_all add: strangerCredentialRequest_def emptyRequest_def)
  have hyp: "\<not> nameMatchesCredential exampleChain 3
                 (kycWallet \<lparr>r_id = 2, r_package_id = 0, r_wallet_address = None,
          r_email = Some ''a@x.com'', r_name = ''Alice'', r_role = RSigner,
          r_signing_order = Some 1, r_signing_status = SigPending,
          r_signed_at = None, r_ip_address = None, r_user_agent = None,
          r_token = 1\<rparr> strangerCredentialRequest) ''alice anderson'' ''0xnft2''
             \<or> \<not> credentialBelongsTo exampleChain 3
                 (kycWallet \<lparr>r_id = 2, r_package_id = 0, r_wallet_address = None,
          r_email = Some ''a@x.com'', r_name = ''Alice'', r_role = RSigner,
          r_signing_order = Some 1, r_signing_status = SigPending,
          r_signed_at = None, r_ip_address = None, r_user_agent = None,
          r_token = 1\<rparr> strangerCredentialRequest) ''0xnft2''"
    unfolding kw using nb by simp
  note w = identity_mismatch_rejected [OF pendingDb_lookups(1) pendingDb_lookups(2) _
        pendingDb_lookups(3) _ b1 _ b2 _ hyp, where ctx = exampleCtx, unfolded kw err]
  have "signField exampleChain 3 exampleCtx 1 3 strangerCredentialRequest pendingDb =
     (KycErrorJson 400 ''KYC verification failed''
        (Some ''Name does not match the specified KYC NFT''), pendingDb)"
    using w by (simp add: isSignatureField_def)
  with nb show ?thesis by simp
qed

text \<open>
  C7 (witness): in \<open>finishedDb\<close> the recipient has completed and field 3 is signed.
\<close>

theorem unsign_after_completion_fails_witness:
  "map_option r_signing_status (getRecipientByToken 1 finishedDb) = Some SigSigned \<and>
   getSignatureByField 3 finishedDb \<noteq> None \<and>
   unsignField 5 1 3 finishedDb =
     (ErrorJson 400 ''Cannot unsign after completing the signing session'', finishedDb)"
proof -
  have r: "getRecipientByToken 1 finishedDb =
      Some \<lparr>r_id = 2, r_package_id = 0, r_wallet_address = None,
          r_email = Some ''a@x.com'', r_name = ''Alice'', r_role = RSigner,
          r_signing_order = Some 1, r_signing_status = SigSigned,
          r_signed_at = Some 4, r_ip_address = Some ''10.0.0.1'',
          r_user_agent = Some ''curl'', r_token = 1\<rparr>"
    by (simp add: finishedDb_eval getRecipientByToken_def)
  have s: "getSignatureByField 3 finishedDb \<noteq> None"
    by (simp add: finishedDb_eval getSignatureByField_def)
  show ?thesis
    using r s unsign_after_completion_fails [OF r, of 5 3] by simp
qed

text \<open>
  C10 (witness): the completed, the cancelled and the pending example document.
\<close>

theorem session_refused_for_closed_document_witness:
  "getSigningSession exampleChain 6 exampleCtx 1 None finishedDb
     = (ErrorJson 400 ''This document has already been completed'', finishedDb) \<and>
   getSigningSession exampleChain 6 exampleCtx 1 None cancelledDb
     = (ErrorJson 400 ''This document has been cancelled'', cancelledDb) \<and>
   (\<exists>session. fst (getSigningSession exampleChain 6 exampleCtx 1 None pendingDb)
                 = SessionJson session)"
proof -
  have r1: "getRecipientByToken 1 finishedDb =
      Some \<lparr>r_id = 2, r_package_id = 0, r_wallet_address = None,
          r_email = Some ''a@x.com'', r_name = ''Alice'', r_role = RSigner,
          r_signing_order = Some 1, r_signing_status = SigSigned,
          r_signed_at = Some 4, r_ip_address = Some ''10.0.0.1'',
          r_user_agent = Some ''curl'', r_token = 1\<rparr>"
    by (simp add: finishedDb_eval getRecipientByToken_def)
  have p1: "map_option p_status (getPackageById 0 finishedDb) = Some Completed"
    by (simp add: finishedDb_eval getPackageById_def)
  have r2: "getRecipientByToken 1 cancelledDb = Some \<lparr>r_id = 2, r_package_id = 0, r_wallet_address = None,
          r_email = Some ''a@x.com'', r_name = ''Alice'', r_role = RSigner,
          r_signing_order = Some 1, r_signing_status = SigPending,
          r_signed_at = None, r_ip_address = None, r_user_agent = None,
          r_token = 1\<rparr>"
    by (simp add: cancelledDb_eval getRecipientByToken_def)
  have p2: "map_option p_status (getPackageById 0 cancelledDb) = Some Cancelled"
    by (simp add: cancelledDb_eval getPackageById_def)
  have p3: "map_option p_status (getPackageById 0 pendingDb) = Some Pending"
    by (simp add: pendingDb_eval getPackageById_def)
  from p1 obtain pk1 where k1: "getPackageById 0 finishedDb = Some pk1" "p_status pk1 = Completed"
    by auto
  from p2 obtain pk2 where k2: "getPackageById 0 cancelledDb = Some pk2" "p_status pk2 = Cancelled"
    by auto
  from p3 obtain pk3 where k3: "getPackageById 0 pendingDb = Some pk3" "p_status pk3 = Pending"
    by auto
  show ?thesis
    using k1(2) k2(2) k3(2)
      session_refused_for_closed_document [OF r1, of pk1 exampleChain 6 exampleCtx None]
      session_refused_for_closed_document [OF r2, of pk2 exampleChain 6 exampleCtx None]
      session_refused_for_closed_document [OF pendingDb_lookups(1), of pk3 exampleChain 6 exampleCtx None]
      k1(1) k2(1) k3(1)
    by simp
qed

text \<open>
  C9 (evaluation at the failing input). On the text field of the pending document the
  value \<^verbatim>\<open>""\<close> is accepted and stored as the field's value, and a signature row is
  created, but its typed-text payload is null: \<^verbatim>\<open>createSignature\<close> stores
  \<^verbatim>\<open>data.typedSignature || null\<close>, and the empty string is falsy. For a non-empty string
  or exactly represented integer that the columns accept the payload is the value
  (\<open>sign_value_field\<close>).
\<close>

theorem empty_string_value_loses_payload:
  "fst (signField exampleChain 3 exampleCtx 1 4 emptyValueRequest pendingDb)
     = SuccessJson 4 ''Field signed successfully'' \<and>
   map_option f_value
     (getFieldById 4 (snd (signField exampleChain 3 exampleCtx 1 4 emptyValueRequest pendingDb)))
     = Some (Some []) \<and>
   map_option s_typed_signature
     (getSignatureByField 4
        (snd (signField exampleChain 3 exampleCtx 1 4 emptyValueRequest pendingDb)))
     = Some None"
  by (simp add: pendingDb_eval signField_def signValueField_def isSignatureField_def
        fieldSignedAudit_def emptyValueRequest_def emptyRequest_def exampleCtx_def schema_defs)

section \<open>Payment gate: proofs\<close>

text \<open>
  What the gate answers, by what the facilitator replies. The cases are stated on the
  replies of the two endpoints, not on what \<^verbatim>\<open>verifyPayment\<close> and \<^verbatim>\<open>settlePayment\<close> make
  of them: an unreachable endpoint, a \<^verbatim>\<open>/verify\<close> body that is not JSON, a verdict that is
  not valid and a settlement that did not succeed are answered 402 with the reason; the
  request is handed on when both verdicts are positive; a header that cannot be decoded
  and a reply that is the JSON value \<^verbatim>\<open>null\<close> are answered 500.
\<close>

lemma payment_gate_no_header:
  "\<not> truthy paymentSignature \<Longrightarrow>
     x402PaymentMiddleware cfg fac decode requestUrl paymentSignature
       = (Challenge 402 (buildPaymentRequired cfg requestUrl) ''Payment required'' 2, []) \<and>
     prq_accepts (buildPaymentRequired cfg requestUrl) = [buildPaymentRequirements cfg] \<and>
     res_url (prq_resource (buildPaymentRequired cfg requestUrl)) = requestUrl \<and>
     res_mimeType (prq_resource (buildPaymentRequired cfg requestUrl)) = ''application/json'' \<and>
     res_description (prq_resource (buildPaymentRequired cfg requestUrl))
       = ''Soulbound Signature Service - '' @ signaturePriceUsdc cfg @ '' USDC''"
  by (simp add: x402PaymentMiddleware_def buildPaymentRequired_def Let_def)

lemma payment_gate_undecodable_header:
  "truthy paymentSignature \<Longrightarrow> decode (the paymentSignature) = None \<Longrightarrow>
     x402PaymentMiddleware cfg fac decode requestUrl paymentSignature
       = (ServerError 500 ''Internal server error processing payment'', [])"
  by (simp add: x402PaymentMiddleware_def)

lemma payment_gate_verify_cases:
  assumes h: "truthy paymentSignature" and d: "decode (the paymentSignature) = Some payload"
  shows "(fac_verify fac payload (buildPaymentRequirements cfg) = VerifyUnreachable \<longrightarrow>
            x402PaymentMiddleware cfg fac decode requestUrl paymentSignature
              = (PaymentError 402 ''Payment verification failed''
                   (Some ''Verification request failed''), [CallVerify])) \<and>
         (\<forall>responseText.
            fac_verify fac payload (buildPaymentRequirements cfg) = VerifyNotJson responseText \<longrightarrow>
            x402PaymentMiddleware cfg fac decode requestUrl paymentSignature
              = (PaymentError 402 ''Payment verification failed''
                   (Some (''Invalid response: '' @ responseText)), [CallVerify])) \<and>
         (\<forall>verdict.
            fac_verify fac payload (buildPaymentRequirements cfg) = VerifyJson verdict \<and>
            \<not> isValid verdict \<longrightarrow>
            x402PaymentMiddleware cfg fac decode requestUrl paymentSignature
              = (PaymentError 402 ''Payment verification failed'' (invalidReason verdict),
                 [CallVerify])) \<and>
         (fac_verify fac payload (buildPaymentRequirements cfg) = VerifyJsonNull \<longrightarrow>
            x402PaymentMiddleware cfg fac decode requestUrl paymentSignature
              = (ServerError 500 ''Internal server error processing payment'', [CallVerify]))"
  using h d by (simp add: x402PaymentMiddleware_def verifyPayment_def Let_def)

lemma payment_gate_settle_cases:
  assumes h: "truthy paymentSignature" and d: "decode (the paymentSignature) = Some payload"
    and v: "fac_verify fac payload (buildPaymentRequirements cfg) = VerifyJson verdict"
    and ok: "isValid verdict"
  shows "(fac_settle fac payload (buildPaymentRequirements cfg) = SettleUnreachable \<longrightarrow>
            x402PaymentMiddleware cfg fac decode requestUrl paymentSignature
              = (PaymentError 402 ''Payment settlement failed''
                   (Some ''Settlement request failed''), [CallVerify, CallSettle])) \<and>
         (\<forall>settlement.
            fac_settle fac payload (buildPaymentRequirements cfg) = SettleJson settlement \<and>
            \<not> success settlement \<longrightarrow>
            x402PaymentMiddleware cfg fac decode requestUrl paymentSignature
              = (PaymentError 402 ''Payment settlement failed'' (errorReason settlement),
                 [CallVerify, CallSettle])) \<and>
         (fac_settle fac payload (buildPaymentRequirements cfg) = SettleJsonNull \<longrightarrow>
            x402PaymentMiddleware cfg fac decode requestUrl paymentSignature
              = (ServerError 500 ''Internal server error processing payment'',
                 [CallVerify, CallSettle])) \<and>
         (\<forall>settlement.
            fac_settle fac payload (buildPaymentRequirements cfg) = SettleJson settlement \<and>
            success settlement \<longrightarrow>
            x402PaymentMiddleware cfg fac decode requestUrl paymentSignature
              = (Next \<lparr>transactionHash = transaction settlement,
                       payer = orElse (vr_payer verdict) (sr_payer settlement),
                       amount = priceAtomic cfg, pi_network = network cfg\<rparr>,
                 [CallVerify, CallSettle]))"
  using h d v ok
  by (simp add: x402PaymentMiddleware_def verifyPayment_def settlePayment_def Let_def
                buildPaymentRequirements_def)

text \<open>
  The request is handed on exactly when the header decodes and both endpoints reply with
  a positive verdict; the status is 500 exactly when the header does not decode or one of
  the replies read is \<^verbatim>\<open>null\<close>; in every other case it is 402.
\<close>

lemma payment_gate_proceeds_iff:
  "creationProceeds (fst (x402PaymentMiddleware cfg fac decode requestUrl paymentSignature)) =
     (truthy paymentSignature \<and>
      (\<exists>payload verdict settlement.
         decode (the paymentSignature) = Some payload \<and>
         fac_verify fac payload (buildPaymentRequirements cfg) = VerifyJson verdict \<and>
         isValid verdict \<and>
         fac_settle fac payload (buildPaymentRequirements cfg) = SettleJson settlement \<and>
         success settlement))"
  by (auto simp: x402PaymentMiddleware_def verifyPayment_def settlePayment_def Let_def
           split: option.splits VerifyReply.splits SettleReply.splits)

lemma payment_gate_status_500_iff:
  "(outcomeStatus (fst (x402PaymentMiddleware cfg fac decode requestUrl paymentSignature))
      = Some 500) =
     (truthy paymentSignature \<and>
      (decode (the paymentSignature) = None \<or>
       (\<exists>payload. decode (the paymentSignature) = Some payload \<and>
          (fac_verify fac payload (buildPaymentRequirements cfg) = VerifyJsonNull \<or>
           (\<exists>verdict.
              fac_verify fac payload (buildPaymentRequirements cfg) = VerifyJson verdict \<and>
              isValid verdict \<and>
              fac_settle fac payload (buildPaymentRequirements cfg) = SettleJsonNull)))))"
  by (auto simp: x402PaymentMiddleware_def verifyPayment_def settlePayment_def Let_def
           split: option.splits VerifyReply.splits SettleReply.splits)

lemma payment_gate_status:
  "outcomeStatus (fst (x402PaymentMiddleware cfg fac decode requestUrl paymentSignature))
     \<in> {None, Some 402, Some 500} \<and>
   (outcomeStatus (fst (x402PaymentMiddleware cfg fac decode requestUrl paymentSignature)) = None)
     = creationProceeds
         (fst (x402PaymentMiddleware cfg fac decode requestUrl paymentSignature))"
  by (auto simp: x402PaymentMiddleware_def verifyPayment_def settlePayment_def Let_def
           split: option.splits VerifyReply.splits SettleReply.splits)

text \<open>
  Examples: no header; a header with an unreachable facilitator; a header with a
  facilitator whose settle endpoint is unreachable. All three are answered 402.
\<close>

lemma payment_gate_examples:
  "x402PaymentMiddleware exampleConfig unreachableFacilitator exampleDecode
     ''http://host/api/documents'' None
     = (Challenge 402 (buildPaymentRequired exampleConfig ''http://host/api/documents'')
          ''Payment required'' 2, []) \<and>
   x402PaymentMiddleware exampleConfig unreachableFacilitator exampleDecode
     ''http://host/api/documents'' (Some ''proof'')
     = (PaymentError 402 ''Payment verification failed''
          (Some ''Verification request failed''), [CallVerify]) \<and>
   x402PaymentMiddleware exampleConfig settleUnreachableFacilitator exampleDecode
     ''http://host/api/documents'' (Some ''proof'')
     = (PaymentError 402 ''Payment settlement failed''
          (Some ''Settlement request failed''), [CallVerify, CallSettle])"
proof -
  have t: "\<not> truthy None" "truthy (Some ''proof'')"
    by (simp_all add: truthy_def)
  have d: "exampleDecode (the (Some ''proof'')) = Some examplePayload"
    by (simp add: exampleDecode_def)
  have u: "fac_verify unreachableFacilitator examplePayload
             (buildPaymentRequirements exampleConfig) = VerifyUnreachable"
    by (simp add: unreachableFacilitator_def)
  have s: "fac_verify settleUnreachableFacilitator examplePayload
             (buildPaymentRequirements exampleConfig)
             = VerifyJson \<lparr>isValid = True, vr_payer = Some ''0xpayer'', invalidReason = None\<rparr>"
          "fac_settle settleUnreachableFacilitator examplePayload
             (buildPaymentRequirements exampleConfig) = SettleUnreachable"
    by (simp_all add: settleUnreachableFacilitator_def)
  show ?thesis
    using t d u s
      payment_gate_no_header [where paymentSignature = None and cfg = exampleConfig
        and fac = unreachableFacilitator and decode = exampleDecode
        and requestUrl = "''http://host/api/documents''"]
      payment_gate_verify_cases [where paymentSignature = "Some ''proof''"
        and cfg = exampleConfig and fac = unreachableFacilitator and decode = exampleDecode
        and payload = examplePayload and requestUrl = "''http://host/api/documents''"]
      payment_gate_settle_cases [where paymentSignature = "Some ''proof''"
        and cfg = exampleConfig and fac = settleUnreachableFacilitator
        and decode = exampleDecode and payload = examplePayload
        and requestUrl = "''http://host/api/documents''"
        and verdict = "\<lparr>isValid = True, vr_payer = Some ''0xpayer'', invalidReason = None\<rparr>"]
    by simp
qed

text \<open>
  C8 (evaluation at the failing input). A creation request carries a payment proof header
  that decodes, and the facilitator answers \<^verbatim>\<open>/verify\<close> with the body \<^verbatim>\<open>null\<close>:
  \<^verbatim>\<open>JSON.parse\<close> accepts it, \<^verbatim>\<open>verifyPayment\<close> returns \<^verbatim>\<open>null\<close>, reading
  \<^verbatim>\<open>verifyResult.isValid\<close> throws, and the gate answers 500
  \<^verbatim>\<open>Internal server error processing payment\<close> after the one call to verify. The same
  happens after verify and settle when \<^verbatim>\<open>/verify\<close> gives a valid verdict and \<^verbatim>\<open>/settle\<close>
  answers \<^verbatim>\<open>null\<close>. In both cases the request is not handed on, but the status is 500,
  not 402, and the response carries no reason.
\<close>

theorem null_facilitator_reply_answers_500:
  "fac_verify nullVerifyFacilitator examplePayload (buildPaymentRequirements exampleConfig)
     = VerifyJsonNull \<and>
   x402PaymentMiddleware exampleConfig nullVerifyFacilitator exampleDecode
     ''http://host/api/documents'' (Some ''proof'')
     = (ServerError 500 ''Internal server error processing payment'', [CallVerify]) \<and>
   fac_verify nullSettleFacilitator examplePayload (buildPaymentRequirements exampleConfig)
     = VerifyJson \<lparr>isValid = True, vr_payer = Some ''0xpayer'', invalidReason = None\<rparr> \<and>
   fac_settle nullSettleFacilitator examplePayload (buildPaymentRequirements exampleConfig)
     = SettleJsonNull \<and>
   x402PaymentMiddleware exampleConfig nullSettleFacilitator exampleDecode
     ''http://host/api/documents'' (Some ''proof'')
     = (ServerError 500 ''Internal server error processing payment'',
        [CallVerify, CallSettle]) \<and>
   outcomeStatus (fst (x402PaymentMiddleware exampleConfig nullVerifyFacilitator exampleDecode
     ''http://host/api/documents'' (Some ''proof''))) = Some 500 \<and>
   outcomeStatus (fst (x402PaymentMiddleware exampleConfig nullSettleFacilitator exampleDecode
     ''http://host/api/documents'' (Some ''proof''))) = Some 500"
  by (simp add: x402PaymentMiddleware_def verifyPayment_def settlePayment_def Let_def
                nullVerifyFacilitator_def nullSettleFacilitator_def exampleDecode_def
                truthy_def)

end
